theory Spec2Isabelle
  imports Main
begin

section \<open>Backstage data sources: the fallback read of the Domain and API kinds\<close>

text \<open>
  A shallow embedding of \<^verbatim>\<open>(*domainDataSource).Read\<close> and \<^verbatim>\<open>Schema\<close>
  (\<^verbatim>\<open>backstage/data_source_domain.go\<close>) and of \<^verbatim>\<open>(*apiDataSource).Read\<close> and
  \<^verbatim>\<open>Schema\<close> (the API data source). Go pointers, slices and maps are options:
  \<open>None\<close> is \<^verbatim>\<open>nil\<close>. A nil pointer dereference is the outcome \<open>Panic\<close>.
  Where two Go structs use the same field name, the fields of the second carry a prefix.
\<close>

subsection \<open>Framework values\<close>

text \<open>\<^verbatim>\<open>types.String\<close> of the plugin framework: null, unknown, or a known value.\<close>

datatype tfString = StringNull | StringUnknown | StringValue string

fun IsNull :: "tfString \<Rightarrow> bool" where
  "IsNull StringNull = True"
| "IsNull StringUnknown = False"
| "IsNull (StringValue s) = False"

text \<open>\<^verbatim>\<open>ValueString\<close> is the empty string for a null or unknown value.\<close>

fun ValueString :: "tfString \<Rightarrow> string" where
  "ValueString StringNull = []"
| "ValueString StringUnknown = []"
| "ValueString (StringValue s) = s"

text \<open>Diagnostics of a response: an error or a warning, each with a summary and a detail.\<close>

datatype diagnostic = ErrorDiagnostic string string | WarningDiagnostic string string

fun is_error :: "diagnostic \<Rightarrow> bool" where
  "is_error (ErrorDiagnostic s l) = True"
| "is_error (WarningDiagnostic s l) = False"

fun is_warning :: "diagnostic \<Rightarrow> bool" where
  "is_warning (ErrorDiagnostic s l) = False"
| "is_warning (WarningDiagnostic s l) = True"

definition HasError :: "diagnostic list \<Rightarrow> bool" where
  "HasError ds = list_ex is_error ds"

text \<open>
  \<^verbatim>\<open>Diagnostics.Append\<close> of the framework adds, in order, each diagnostic that the
  collection does not contain yet; \<^verbatim>\<open>AddError\<close> and \<^verbatim>\<open>AddWarning\<close> append one
  diagnostic in this way.
\<close>

fun Append :: "diagnostic list \<Rightarrow> diagnostic list \<Rightarrow> diagnostic list" where
  "Append ds [] = ds"
| "Append ds (d # rest) = Append (if d \<in> set ds then ds else ds @ [d]) rest"

definition AddError :: "diagnostic list \<Rightarrow> string \<Rightarrow> string \<Rightarrow> diagnostic list" where
  "AddError ds s l = Append ds [ErrorDiagnostic s l]"

definition AddWarning :: "diagnostic list \<Rightarrow> string \<Rightarrow> string \<Rightarrow> diagnostic list" where
  "AddWarning ds s l = Append ds [WarningDiagnostic s l]"

text \<open>
  Go slices: \<open>None\<close> is the nil slice, \<open>Some []\<close> an allocated empty one. Ranging over
  either runs no iteration; \<^verbatim>\<open>append\<close> to a nil slice allocates.
\<close>

definition range_slice :: "'a list option \<Rightarrow> 'a list" where
  "range_slice s = (case s of None \<Rightarrow> [] | Some xs \<Rightarrow> xs)"

definition append_slice :: "'a list option \<Rightarrow> 'a \<Rightarrow> 'a list option" where
  "append_slice s x = (case s of None \<Rightarrow> Some [x] | Some xs \<Rightarrow> Some (xs @ [x]))"

text \<open>
  A Go map that is ranged over is its entries in the order of that iteration (\<open>None\<close> is the
  nil map); a map that is written to is a partial function.
\<close>

type_synonym go_map_entries = "(string \<times> string) list option"

subsection \<open>The state model of a data source\<close>

text \<open>
  Modelled from the spec: \<^verbatim>\<open>entityLinkModel\<close>, \<^verbatim>\<open>entityRelationTargetModel\<close>,
  \<^verbatim>\<open>entityRelationModel\<close> and \<^verbatim>\<open>entityMetadataModel\<close> are declared in a file of the
  package that is not among the sources; their fields and field types are the ones
  \<^verbatim>\<open>Read\<close> assigns.
\<close>

record entityLinkModel =
  link_URL :: tfString
  link_Title :: tfString
  link_Icon :: tfString
  link_Type :: tfString

record entityRelationTargetModel =
  tgt_Kind :: tfString
  tgt_Name :: tfString
  tgt_Namespace :: tfString

record entityRelationModel =
  rel_Type :: tfString
  rel_TargetRef :: tfString
  rel_Target :: "entityRelationTargetModel option"

record entityMetadataModel =
  md_UID :: tfString
  md_Etag :: tfString
  md_Name :: tfString
  md_Namespace :: tfString
  md_Title :: tfString
  md_Description :: tfString
  md_Annotations :: "(string \<rightharpoonup> string) option"
  md_Labels :: "(string \<rightharpoonup> string) option"
  md_Tags :: "tfString list option"
  md_Links :: "entityLinkModel list option"

text \<open>\<^verbatim>\<open>domainSpecModel\<close> and \<^verbatim>\<open>apiSpecModel\<close>.\<close>

record domainSpecModel =
  dspec_Owner :: tfString

record apiSpecModel =
  aspec_Type :: tfString
  aspec_Lifecycle :: tfString
  aspec_Owner :: tfString
  aspec_Definition :: tfString
  aspec_System :: tfString

text \<open>
  \<^verbatim>\<open>domainFallbackModel\<close> and \<^verbatim>\<open>apiFallbackModel\<close> differ in the type of \<^verbatim>\<open>Spec\<close>
  only, as do \<^verbatim>\<open>domainDataSourceModel\<close> and \<^verbatim>\<open>apiDataSourceModel\<close>.
\<close>

record 'spec fallbackModel =
  fb_ID :: tfString
  fb_Name :: tfString
  fb_Namespace :: tfString
  fb_ApiVersion :: tfString
  fb_Kind :: tfString
  fb_Metadata :: "entityMetadataModel option"
  fb_Relations :: "entityRelationModel list option"
  fb_Spec :: "'spec option"

record 'spec dataSourceModel =
  ID :: tfString
  Name :: tfString
  Namespace :: tfString
  ApiVersion :: tfString
  Kind :: tfString
  Metadata :: "entityMetadataModel option"
  Relations :: "entityRelationModel list option"
  Spec :: "'spec option"
  Fallback :: "'spec fallbackModel option"

type_synonym domainFallbackModel = "domainSpecModel fallbackModel"
type_synonym domainDataSourceModel = "domainSpecModel dataSourceModel"
type_synonym apiFallbackModel = "apiSpecModel fallbackModel"
type_synonym apiDataSourceModel = "apiSpecModel dataSourceModel"

subsection \<open>The catalog client\<close>

text \<open>
  Modelled from the spec: the entity types, the constants \<^verbatim>\<open>DefaultNamespaceName\<close>,
  \<^verbatim>\<open>KindDomain\<close> and \<^verbatim>\<open>KindAPI\<close> and the \<^verbatim>\<open>Get\<close> methods belong to the client
  library \<^verbatim>\<open>go-backstage\<close>, which is not among the sources. The entity records hold the
  fields \<^verbatim>\<open>Read\<close> reads; the namespace constant is the spec's \<^verbatim>\<open>"default"\<close>, the kind
  constants the kinds' literal tags. In the library the \<^verbatim>\<open>Spec\<close> of an entity is a pointer,
  nil for an answer that has no \<^verbatim>\<open>spec\<close>; the other fields \<^verbatim>\<open>Read\<close> reads are values,
  slices and maps.
\<close>

definition DefaultNamespaceName :: string where
  "DefaultNamespaceName = ''default''"

definition KindDomain :: string where
  "KindDomain = ''Domain''"

definition KindAPI :: string where
  "KindAPI = ''API''"

record EntityLink =
  el_URL :: string
  el_Title :: string
  el_Icon :: string
  el_Type :: string

record EntityRelationTarget =
  ert_Name :: string
  ert_Kind :: string
  ert_Namespace :: string

record EntityRelation =
  er_Type :: string
  er_TargetRef :: string
  er_Target :: EntityRelationTarget

record EntityMeta =
  em_UID :: string
  em_Etag :: string
  em_Name :: string
  em_Namespace :: string
  em_Title :: string
  em_Description :: string
  em_Annotations :: go_map_entries
  em_Labels :: go_map_entries
  em_Tags :: "string list option"
  em_Links :: "EntityLink list option"

record DomainEntitySpec =
  des_Owner :: string

record ApiEntitySpec =
  aes_Type :: string
  aes_Lifecycle :: string
  aes_Owner :: string
  aes_Definition :: string
  aes_System :: string

record 'spec Entity =
  ent_ApiVersion :: string
  ent_Kind :: string
  ent_Metadata :: EntityMeta
  ent_Relations :: "EntityRelation list option"
  ent_Spec :: "'spec option"

type_synonym DomainEntity = "DomainEntitySpec Entity"
type_synonym ApiEntity = "ApiEntitySpec Entity"

text \<open>\<^verbatim>\<open>http.Response\<close>, the two fields \<^verbatim>\<open>Read\<close> reads, and \<^verbatim>\<open>http.StatusOK\<close>.\<close>

record http_Response =
  StatusCode :: int
  Status :: string

definition StatusOK :: int where
  "StatusOK = 200"

text \<open>
  What \<^verbatim>\<open>Get(ctx, name, namespace)\<close> returns: the entity pointer, the response pointer and
  the error (\<open>None\<close> is \<^verbatim>\<open>nil\<close>, otherwise the text of \<^verbatim>\<open>err.Error()\<close>).
\<close>

type_synonym 'spec fetched = "'spec Entity option \<times> http_Response option \<times> string option"

type_synonym 'spec catalog_client = "string \<Rightarrow> string \<Rightarrow> 'spec fetched"

subsection \<open>The outcome of a read\<close>

text \<open>
  A read either panics or returns with the diagnostics of its response and, when
  \<^verbatim>\<open>resp.State.Set\<close> ran, the state it wrote. \<open>calls\<close> lists the arguments
  \<open>(name, namespace)\<close> of every call of the client, in the order of the calls.
\<close>

datatype 'state outcome = Panic | Return "diagnostic list" "'state option"

record 'state read_result =
  calls :: "(string \<times> string) list"
  outcome :: "'state outcome"

subsection \<open>The State Projector: the blocks of \<^verbatim>\<open>Read\<close> that both kinds share\<close>

text \<open>
  The loop over the entity's relations (domain lines 253-262, API lines 268-277): each
  relation is appended to \<^verbatim>\<open>state.Relations\<close>.
\<close>

definition project_relation :: "EntityRelation \<Rightarrow> entityRelationModel" where
  "project_relation i =
     \<lparr>rel_Type = StringValue (er_Type i),
      rel_TargetRef = StringValue (er_TargetRef i),
      rel_Target = Some
        \<lparr>tgt_Kind = StringValue (ert_Kind (er_Target i)),
         tgt_Name = StringValue (ert_Name (er_Target i)),
         tgt_Namespace = StringValue (ert_Namespace (er_Target i))\<rparr>\<rparr>"

definition append_relations ::
  "entityRelationModel list option \<Rightarrow> EntityRelation list option \<Rightarrow> entityRelationModel list option"
where
  "append_relations dst src =
     fold (\<lambda>i acc. append_slice acc (project_relation i)) (range_slice src) dst"

text \<open>
  The metadata (domain lines 268-298, API lines 287-317): the struct literal allocates
  both maps and leaves \<^verbatim>\<open>Tags\<close> and \<^verbatim>\<open>Links\<close> nil; the four loops then copy labels
  and annotations key by key and append tags and links.
\<close>

definition assign_entries :: "(string \<rightharpoonup> string) \<Rightarrow> (string \<times> string) list \<Rightarrow> (string \<rightharpoonup> string)" where
  "assign_entries m kvs = fold (\<lambda>(k, v) m. m(k \<mapsto> v)) kvs m"

definition project_link :: "EntityLink \<Rightarrow> entityLinkModel" where
  "project_link v =
     \<lparr>link_URL = StringValue (el_URL v),
      link_Title = StringValue (el_Title v),
      link_Icon = StringValue (el_Icon v),
      link_Type = StringValue (el_Type v)\<rparr>"

definition append_tags :: "tfString list option \<Rightarrow> string list option \<Rightarrow> tfString list option" where
  "append_tags dst src = fold (\<lambda>v acc. append_slice acc (StringValue v)) (range_slice src) dst"

definition append_links :: "entityLinkModel list option \<Rightarrow> EntityLink list option \<Rightarrow> entityLinkModel list option" where
  "append_links dst src = fold (\<lambda>v acc. append_slice acc (project_link v)) (range_slice src) dst"

definition project_metadata :: "EntityMeta \<Rightarrow> entityMetadataModel" where
  "project_metadata m =
     (let md = \<lparr>md_UID = StringValue (em_UID m),
                md_Etag = StringValue (em_Etag m),
                md_Name = StringValue (em_Name m),
                md_Namespace = StringValue (em_Namespace m),
                md_Title = StringValue (em_Title m),
                md_Description = StringValue (em_Description m),
                md_Annotations = Some Map.empty,
                md_Labels = Some Map.empty,
                md_Tags = None,
                md_Links = None\<rparr>;
          md = md\<lparr>md_Labels := map_option (\<lambda>l. assign_entries l (range_slice (em_Labels m))) (md_Labels md)\<rparr>;
          md = md\<lparr>md_Annotations :=
                 map_option (\<lambda>a. assign_entries a (range_slice (em_Annotations m))) (md_Annotations md)\<rparr>;
          md = md\<lparr>md_Tags := append_tags (md_Tags md) (em_Tags m)\<rparr>;
          md = md\<lparr>md_Links := append_links (md_Links md) (em_Links m)\<rparr>
      in md)"

subsection \<open>The prologue of \<^verbatim>\<open>Read\<close>, the same text in both kinds\<close>

text \<open>Domain lines 202-204, API lines 218-220: an unset namespace becomes the default one.\<close>

definition defaultNamespace :: "'spec dataSourceModel \<Rightarrow> 'spec dataSourceModel" where
  "defaultNamespace state =
     (if IsNull (Namespace state) then state\<lparr>Namespace := StringValue DefaultNamespaceName\<rparr>
      else state)"

text \<open>
  Domain line 207, API line 223: the one call of the client, with the arguments
  \<^verbatim>\<open>state.Name.ValueString()\<close> and \<^verbatim>\<open>state.Namespace.ValueString()\<close>.
\<close>

definition Get_args :: "'spec dataSourceModel \<Rightarrow> string \<times> string" where
  "Get_args state = (ValueString (Name state), ValueString (Namespace state))"

definition Get :: "'e catalog_client \<Rightarrow> 'spec dataSourceModel \<Rightarrow> 'e fetched" where
  "Get client state = (case Get_args state of (name, namespace) \<Rightarrow> client name namespace)"

subsection \<open>\<^verbatim>\<open>(*domainDataSource).Read\<close>\<close>

text \<open>Lines 229-245: the defaults of the fallback, then the copy of its eight fields.\<close>

definition domain_fallback_block :: "domainDataSourceModel \<Rightarrow> domainFallbackModel \<Rightarrow> domainDataSourceModel" where
  "domain_fallback_block state fb =
     (let fb = (if IsNull (fb_ID fb) then fb\<lparr>fb_ID := StringValue ''123456789''\<rparr> else fb);
          fb = (if IsNull (fb_ApiVersion fb)
                then fb\<lparr>fb_ApiVersion := StringValue ''backstage.io/v1alpha1''\<rparr> else fb);
          fb = (if IsNull (fb_Kind fb) then fb\<lparr>fb_Kind := StringValue KindDomain\<rparr> else fb)
      in state\<lparr>Fallback := Some fb,
               ID := fb_ID fb,
               Name := fb_Name fb,
               Namespace := fb_Namespace fb,
               ApiVersion := fb_ApiVersion fb,
               Kind := fb_Kind fb,
               Metadata := fb_Metadata fb,
               Relations := fb_Relations fb,
               Spec := fb_Spec fb\<rparr>)"

text \<open>
  Lines 249-298: the state is overwritten from the fetched entity. Line 265 reads
  \<^verbatim>\<open>domain.Spec.Owner\<close> through the pointer \<^verbatim>\<open>domain.Spec\<close> with no nil check: \<open>None\<close>
  is the panic of that line, after which nothing is written.
\<close>

definition domain_project :: "domainDataSourceModel \<Rightarrow> DomainEntity \<Rightarrow> domainDataSourceModel option" where
  "domain_project state domain =
     (let state = state\<lparr>ID := StringValue (em_UID (ent_Metadata domain)),
                        ApiVersion := StringValue (ent_ApiVersion domain),
                        Kind := StringValue (ent_Kind domain),
                        Relations := append_relations (Relations state) (ent_Relations domain)\<rparr>
      in case ent_Spec domain of
           None \<Rightarrow> None
         | Some spec \<Rightarrow>
             Some (state\<lparr>Spec := Some \<lparr>dspec_Owner = StringValue (des_Owner spec)\<rparr>,
                          Metadata := Some (project_metadata (ent_Metadata domain))\<rparr>))"

text \<open>
  Lines 208-306, what \<^verbatim>\<open>Read\<close> does with the client's answer. \<open>diags\<close> is
  \<^verbatim>\<open>resp.Diagnostics\<close>. Line 218 reads \<^verbatim>\<open>response.StatusCode\<close> with no nil check;
  line 249 reads through the entity pointer and line 265 through its \<^verbatim>\<open>Spec\<close> pointer,
  with no nil check either.
\<close>

definition domain_Read_fetched ::
  "diagnostic list \<Rightarrow> domainDataSourceModel \<Rightarrow> DomainEntitySpec fetched \<Rightarrow> domainDataSourceModel outcome"
where
  "domain_Read_fetched diags state answer =
     (case answer of (domain, response, err) \<Rightarrow>
      let shortErr = ''Error reading Backstage Domain kind'';
          prefix = ''Could not read Backstage Domain kind '' @ ValueString (Namespace state)
                     @ ''/'' @ ValueString (Name state) @ '': '';
          diags = (case err of None \<Rightarrow> diags
                   | Some e \<Rightarrow>
                       if Fallback state = None then AddError diags shortErr (prefix @ e)
                       else AddWarning diags shortErr (prefix @ e))
      in if err \<noteq> None \<and> Fallback state = None then Return diags None
         else
           (case response of
              None \<Rightarrow> Panic
            | Some r \<Rightarrow>
                let diags = (if StatusCode r \<noteq> StatusOK
                             then (if Fallback state = None
                                   then AddError diags shortErr (prefix @ Status r)
                                   else AddWarning diags shortErr (prefix @ Status r))
                             else diags)
                in if StatusCode r \<noteq> StatusOK \<and> Fallback state = None then Return diags None
                   else
                     let state = (case Fallback state of
                                    Some fb \<Rightarrow>
                                      if err \<noteq> None \<or> StatusCode r \<noteq> StatusOK
                                      then domain_fallback_block state fb else state
                                  | None \<Rightarrow> state)
                     in if err = None \<and> StatusCode r = StatusOK
                        then (case domain of
                                None \<Rightarrow> Panic
                              | Some d \<Rightarrow>
                                  (case domain_project state d of
                                     None \<Rightarrow> Panic
                                   | Some state \<Rightarrow> Return diags (Some state)))
                        else Return diags (Some state)))"

text \<open>
  Lines 194-207. \<open>config\<close> is what \<^verbatim>\<open>req.Config.Get(ctx, &state)\<close> gives: its
  diagnostics, which line 197 appends to the empty \<^verbatim>\<open>resp.Diagnostics\<close>, and the decoded
  state. \<^verbatim>\<open>resp.State.Set\<close> stores the state it is given.
\<close>

definition domain_Read ::
  "DomainEntitySpec catalog_client \<Rightarrow> diagnostic list \<times> domainDataSourceModel
     \<Rightarrow> domainDataSourceModel read_result"
where
  "domain_Read client config =
     (case config of (getDiags, state) \<Rightarrow>
      let diags = Append [] getDiags
      in if HasError diags then \<lparr>calls = [], outcome = Return diags None\<rparr>
         else
           let state = defaultNamespace state
           in \<lparr>calls = [Get_args state],
               outcome = domain_Read_fetched diags state (Get client state)\<rparr>)"

subsection \<open>\<^verbatim>\<open>(*apiDataSource).Read\<close>\<close>

text \<open>Lines 245-261.\<close>

definition api_fallback_block :: "apiDataSourceModel \<Rightarrow> apiFallbackModel \<Rightarrow> apiDataSourceModel" where
  "api_fallback_block state fb =
     (let fb = (if IsNull (fb_ID fb) then fb\<lparr>fb_ID := StringValue ''123456789''\<rparr> else fb);
          fb = (if IsNull (fb_ApiVersion fb)
                then fb\<lparr>fb_ApiVersion := StringValue ''backstage.io/v1alpha1''\<rparr> else fb);
          fb = (if IsNull (fb_Kind fb) then fb\<lparr>fb_Kind := StringValue KindAPI\<rparr> else fb)
      in state\<lparr>Fallback := Some fb,
               ID := fb_ID fb,
               Name := fb_Name fb,
               Namespace := fb_Namespace fb,
               ApiVersion := fb_ApiVersion fb,
               Kind := fb_Kind fb,
               Metadata := fb_Metadata fb,
               Relations := fb_Relations fb,
               Spec := fb_Spec fb\<rparr>)"

text \<open>
  Lines 264-317. Line 280 reads \<^verbatim>\<open>api.Spec.Type\<close> through the pointer \<^verbatim>\<open>api.Spec\<close>
  with no nil check: \<open>None\<close> is the panic of that line.
\<close>

definition api_project :: "apiDataSourceModel \<Rightarrow> ApiEntity \<Rightarrow> apiDataSourceModel option" where
  "api_project state api =
     (let state = state\<lparr>ID := StringValue (em_UID (ent_Metadata api)),
                        ApiVersion := StringValue (ent_ApiVersion api),
                        Kind := StringValue (ent_Kind api),
                        Relations := append_relations (Relations state) (ent_Relations api)\<rparr>
      in case ent_Spec api of
           None \<Rightarrow> None
         | Some spec \<Rightarrow>
             Some (state\<lparr>Spec := Some \<lparr>aspec_Type = StringValue (aes_Type spec),
                                        aspec_Lifecycle = StringValue (aes_Lifecycle spec),
                                        aspec_Owner = StringValue (aes_Owner spec),
                                        aspec_Definition = StringValue (aes_Definition spec),
                                        aspec_System = StringValue (aes_System spec)\<rparr>,
                          Metadata := Some (project_metadata (ent_Metadata api))\<rparr>))"

text \<open>
  Lines 224-325; line 234 reads \<^verbatim>\<open>response.StatusCode\<close>, line 264 the entity and line
  280 its \<^verbatim>\<open>Spec\<close>, each through a pointer with no nil check.
\<close>

definition api_Read_fetched ::
  "diagnostic list \<Rightarrow> apiDataSourceModel \<Rightarrow> ApiEntitySpec fetched \<Rightarrow> apiDataSourceModel outcome"
where
  "api_Read_fetched diags state answer =
     (case answer of (api, response, err) \<Rightarrow>
      let shortErr = ''Error reading Backstage API kind'';
          prefix = ''Could not read Backstage API kind '' @ ValueString (Namespace state)
                     @ ''/'' @ ValueString (Name state) @ '': '';
          diags = (case err of None \<Rightarrow> diags
                   | Some e \<Rightarrow>
                       if Fallback state = None then AddError diags shortErr (prefix @ e)
                       else AddWarning diags shortErr (prefix @ e))
      in if err \<noteq> None \<and> Fallback state = None then Return diags None
         else
           (case response of
              None \<Rightarrow> Panic
            | Some r \<Rightarrow>
                let diags = (if StatusCode r \<noteq> StatusOK
                             then (if Fallback state = None
                                   then AddError diags shortErr (prefix @ Status r)
                                   else AddWarning diags shortErr (prefix @ Status r))
                             else diags)
                in if StatusCode r \<noteq> StatusOK \<and> Fallback state = None then Return diags None
                   else
                     let state = (case Fallback state of
                                    Some fb \<Rightarrow>
                                      if err \<noteq> None \<or> StatusCode r \<noteq> StatusOK
                                      then api_fallback_block state fb else state
                                  | None \<Rightarrow> state)
                     in if err = None \<and> StatusCode r = StatusOK
                        then (case api of
                                None \<Rightarrow> Panic
                              | Some a \<Rightarrow>
                                  (case api_project state a of
                                     None \<Rightarrow> Panic
                                   | Some state \<Rightarrow> Return diags (Some state)))
                        else Return diags (Some state)))"

text \<open>Lines 210-223.\<close>

definition api_Read ::
  "ApiEntitySpec catalog_client \<Rightarrow> diagnostic list \<times> apiDataSourceModel
     \<Rightarrow> apiDataSourceModel read_result"
where
  "api_Read client config =
     (case config of (getDiags, state) \<Rightarrow>
      let diags = Append [] getDiags
      in if HasError diags then \<lparr>calls = [], outcome = Return diags None\<rparr>
         else
           let state = defaultNamespace state
           in \<lparr>calls = [Get_args state],
               outcome = api_Read_fetched diags state (Get client state)\<rparr>)"

subsection \<open>The schemas\<close>

text \<open>
  An attribute of a schema sets exactly one of the flags \<^verbatim>\<open>Required\<close>, \<^verbatim>\<open>Optional\<close>
  and \<^verbatim>\<open>Computed\<close>. The validators of a string attribute are kept; the regular expression
  \<^verbatim>\<open>patternEntityName\<close> is declared outside the sources and is kept by name. Descriptions
  are left out; the element type of every map and list attribute is the string type. An
  \<^verbatim>\<open>Attributes\<close> map literal is the list of its entries in the order of the source text.
\<close>

datatype requiredness = Required | Optional | Computed

datatype validator = LengthBetween nat nat | RegexMatches_patternEntityName

datatype attribute =
    StringAttribute requiredness "validator list"
  | MapAttribute requiredness
  | ListAttribute requiredness
  | SingleNestedAttribute requiredness "(string \<times> attribute) list"
  | ListNestedAttribute requiredness "(string \<times> attribute) list"

text \<open>\<^verbatim>\<open>(*domainDataSource).Schema\<close>, lines 75-180.\<close>

definition domain_Schema :: "(string \<times> attribute) list" where
  "domain_Schema =
    [(''id'', StringAttribute Computed []),
     (''name'', StringAttribute Required [LengthBetween 1 63, RegexMatches_patternEntityName]),
     (''namespace'', StringAttribute Optional [LengthBetween 1 63, RegexMatches_patternEntityName]),
     (''api_version'', StringAttribute Computed []),
     (''kind'', StringAttribute Computed []),
     (''metadata'', SingleNestedAttribute Computed
        [(''uid'', StringAttribute Computed []),
         (''etag'', StringAttribute Computed []),
         (''name'', StringAttribute Computed []),
         (''namespace'', StringAttribute Computed []),
         (''title'', StringAttribute Computed []),
         (''description'', StringAttribute Computed []),
         (''labels'', MapAttribute Computed),
         (''annotations'', MapAttribute Computed),
         (''tags'', ListAttribute Computed),
         (''links'', ListNestedAttribute Computed
            [(''url'', StringAttribute Computed []),
             (''title'', StringAttribute Computed []),
             (''icon'', StringAttribute Computed []),
             (''type'', StringAttribute Computed [])])]),
     (''relations'', ListNestedAttribute Computed
        [(''type'', StringAttribute Computed []),
         (''target_ref'', StringAttribute Computed []),
         (''target'', SingleNestedAttribute Computed
            [(''name'', StringAttribute Computed []),
             (''kind'', StringAttribute Computed []),
             (''namespace'', StringAttribute Computed [])])]),
     (''spec'', SingleNestedAttribute Computed
        [(''owner'', StringAttribute Computed [])]),
     (''fallback'', SingleNestedAttribute Optional
        [(''id'', StringAttribute Optional []),
         (''name'', StringAttribute Required [LengthBetween 1 63, RegexMatches_patternEntityName]),
         (''namespace'', StringAttribute Optional [LengthBetween 1 63, RegexMatches_patternEntityName]),
         (''api_version'', StringAttribute Optional []),
         (''kind'', StringAttribute Optional []),
         (''metadata'', SingleNestedAttribute Optional
            [(''uid'', StringAttribute Optional []),
             (''etag'', StringAttribute Optional []),
             (''name'', StringAttribute Optional []),
             (''namespace'', StringAttribute Optional []),
             (''title'', StringAttribute Optional []),
             (''description'', StringAttribute Optional []),
             (''labels'', MapAttribute Optional),
             (''annotations'', MapAttribute Optional),
             (''tags'', ListAttribute Optional),
             (''links'', ListNestedAttribute Optional
                [(''url'', StringAttribute Optional []),
                 (''title'', StringAttribute Optional []),
                 (''icon'', StringAttribute Optional []),
                 (''type'', StringAttribute Optional [])])]),
         (''relations'', ListNestedAttribute Optional
            [(''type'', StringAttribute Optional []),
             (''target_ref'', StringAttribute Optional []),
             (''target'', SingleNestedAttribute Optional
                [(''name'', StringAttribute Optional []),
                 (''kind'', StringAttribute Optional []),
                 (''namespace'', StringAttribute Optional [])])]),
         (''spec'', SingleNestedAttribute Optional
            [(''owner'', StringAttribute Optional [])])])]"

text \<open>\<^verbatim>\<open>(*apiDataSource).Schema\<close>, lines 83-196.\<close>

definition api_Schema :: "(string \<times> attribute) list" where
  "api_Schema =
    [(''id'', StringAttribute Computed []),
     (''name'', StringAttribute Required [LengthBetween 1 63, RegexMatches_patternEntityName]),
     (''namespace'', StringAttribute Optional [LengthBetween 1 63, RegexMatches_patternEntityName]),
     (''api_version'', StringAttribute Computed []),
     (''kind'', StringAttribute Computed []),
     (''metadata'', SingleNestedAttribute Computed
        [(''uid'', StringAttribute Computed []),
         (''etag'', StringAttribute Computed []),
         (''name'', StringAttribute Computed []),
         (''namespace'', StringAttribute Computed []),
         (''title'', StringAttribute Computed []),
         (''description'', StringAttribute Computed []),
         (''labels'', MapAttribute Computed),
         (''annotations'', MapAttribute Computed),
         (''tags'', ListAttribute Computed),
         (''links'', ListNestedAttribute Computed
            [(''url'', StringAttribute Computed []),
             (''title'', StringAttribute Computed []),
             (''icon'', StringAttribute Computed []),
             (''type'', StringAttribute Computed [])])]),
     (''relations'', ListNestedAttribute Computed
        [(''type'', StringAttribute Computed []),
         (''target_ref'', StringAttribute Computed []),
         (''target'', SingleNestedAttribute Computed
            [(''name'', StringAttribute Computed []),
             (''kind'', StringAttribute Computed []),
             (''namespace'', StringAttribute Computed [])])]),
     (''spec'', SingleNestedAttribute Computed
        [(''type'', StringAttribute Computed []),
         (''lifecycle'', StringAttribute Computed []),
         (''owner'', StringAttribute Computed []),
         (''definition'', StringAttribute Computed []),
         (''system'', StringAttribute Computed [])]),
     (''fallback'', SingleNestedAttribute Optional
        [(''id'', StringAttribute Optional []),
         (''name'', StringAttribute Optional [LengthBetween 1 63, RegexMatches_patternEntityName]),
         (''namespace'', StringAttribute Optional [LengthBetween 1 63, RegexMatches_patternEntityName]),
         (''api_version'', StringAttribute Optional []),
         (''kind'', StringAttribute Optional []),
         (''metadata'', SingleNestedAttribute Optional
            [(''uid'', StringAttribute Optional []),
             (''etag'', StringAttribute Optional []),
             (''name'', StringAttribute Optional []),
             (''namespace'', StringAttribute Optional []),
             (''title'', StringAttribute Optional []),
             (''description'', StringAttribute Optional []),
             (''labels'', MapAttribute Optional),
             (''annotations'', MapAttribute Optional),
             (''tags'', ListAttribute Optional),
             (''links'', ListNestedAttribute Optional
                [(''url'', StringAttribute Optional []),
                 (''title'', StringAttribute Optional []),
                 (''icon'', StringAttribute Optional []),
                 (''type'', StringAttribute Optional [])])]),
         (''relations'', ListNestedAttribute Optional
            [(''type'', StringAttribute Optional []),
             (''target_ref'', StringAttribute Optional []),
             (''target'', SingleNestedAttribute Optional
                [(''name'', StringAttribute Optional []),
                 (''kind'', StringAttribute Optional []),
                 (''namespace'', StringAttribute Optional [])])]),
         (''spec'', SingleNestedAttribute Optional
            [(''type'', StringAttribute Optional []),
             (''lifecycle'', StringAttribute Optional []),
             (''owner'', StringAttribute Optional []),
             (''definition'', StringAttribute Optional []),
             (''system'', StringAttribute Optional [])])])]"

subsection \<open>Notions the properties are stated with\<close>

text \<open>
  The diagnostics of a read that goes on with a fallback (domain lines 215 and 225, API lines
  231 and 241): a warning for the error, then a warning for a status that is not 200, added
  to \<open>diags\<close>. \<open>label\<close> is \<^verbatim>\<open>Domain\<close> or \<^verbatim>\<open>API\<close>, the word in which the message
  texts of the two kinds differ.
\<close>

definition fallback_diagnostics ::
  "string \<Rightarrow> 'spec dataSourceModel \<Rightarrow> http_Response \<Rightarrow> string option \<Rightarrow> diagnostic list \<Rightarrow> diagnostic list"
where
  "fallback_diagnostics label state r err diags =
     (let shortErr = ''Error reading Backstage '' @ label @ '' kind'';
          prefix = ''Could not read Backstage '' @ label @ '' kind '' @ ValueString (Namespace state)
                     @ ''/'' @ ValueString (Name state) @ '': '';
          diags = (case err of None \<Rightarrow> diags | Some e \<Rightarrow> AddWarning diags shortErr (prefix @ e))
      in if StatusCode r = StatusOK then diags else AddWarning diags shortErr (prefix @ Status r))"

text \<open>The flag of an attribute, and the attributes nested in it.\<close>

fun flag :: "attribute \<Rightarrow> requiredness" where
  "flag (StringAttribute f vs) = f"
| "flag (MapAttribute f) = f"
| "flag (ListAttribute f) = f"
| "flag (SingleNestedAttribute f as) = f"
| "flag (ListNestedAttribute f as) = f"

fun Attributes :: "attribute \<Rightarrow> (string \<times> attribute) list" where
  "Attributes (SingleNestedAttribute f as) = as"
| "Attributes (ListNestedAttribute f as) = as"
| "Attributes a = []"

text \<open>An attribute is optional throughout when it and every attribute nested in it is.\<close>

fun all_optional :: "attribute \<Rightarrow> bool" where
  "all_optional (StringAttribute f vs) = (f = Optional)"
| "all_optional (MapAttribute f) = (f = Optional)"
| "all_optional (ListAttribute f) = (f = Optional)"
| "all_optional (SingleNestedAttribute f as) = (f = Optional \<and> list_all (\<lambda>(n, a). all_optional a) as)"
| "all_optional (ListNestedAttribute f as) = (f = Optional \<and> list_all (\<lambda>(n, a). all_optional a) as)"

definition attributes_optional :: "(string \<times> attribute) list \<Rightarrow> bool" where
  "attributes_optional as = list_all (\<lambda>(n, a). all_optional a) as"

text \<open>The same attribute with every flag replaced by \<open>Optional\<close>.\<close>

fun relax :: "attribute \<Rightarrow> attribute" where
  "relax (StringAttribute f vs) = StringAttribute Optional vs"
| "relax (MapAttribute f) = MapAttribute Optional"
| "relax (ListAttribute f) = ListAttribute Optional"
| "relax (SingleNestedAttribute f as) = SingleNestedAttribute Optional (map (\<lambda>(n, a). (n, relax a)) as)"
| "relax (ListNestedAttribute f as) = ListNestedAttribute Optional (map (\<lambda>(n, a). (n, relax a)) as)"

text \<open>
  The attributes of the \<^verbatim>\<open>fallback\<close> block of a schema, and the attributes of the entity:
  all the others.
\<close>

definition fallback_attributes :: "(string \<times> attribute) list \<Rightarrow> (string \<times> attribute) list" where
  "fallback_attributes sch = (case map_of sch ''fallback'' of Some a \<Rightarrow> Attributes a | None \<Rightarrow> [])"

definition entity_attributes :: "(string \<times> attribute) list \<Rightarrow> (string \<times> attribute) list" where
  "entity_attributes sch = filter (\<lambda>(n, a). n \<noteq> ''fallback'') sch"

subsection \<open>Concrete reads\<close>

text \<open>
  A configuration that sets a name only, with and without a fallback that sets a name
  only; an entity of each kind, with one label, no annotations, no tags and two links; two
  responses; and the clients of the reads below.
\<close>

definition name_only_fallback :: "'spec fallbackModel" where
  "name_only_fallback =
     \<lparr>fb_ID = StringNull, fb_Name = StringValue ''payments'', fb_Namespace = StringNull,
      fb_ApiVersion = StringNull, fb_Kind = StringNull, fb_Metadata = None,
      fb_Relations = None, fb_Spec = None\<rparr>"

definition config_with_fallback :: "'spec dataSourceModel" where
  "config_with_fallback =
     \<lparr>ID = StringNull, Name = StringValue ''payments'', Namespace = StringNull,
      ApiVersion = StringNull, Kind = StringNull, Metadata = None, Relations = None,
      Spec = None, Fallback = Some name_only_fallback\<rparr>"

definition config_without_fallback :: "'spec dataSourceModel" where
  "config_without_fallback =
     \<lparr>ID = StringNull, Name = StringValue ''payments'', Namespace = StringNull,
      ApiVersion = StringNull, Kind = StringNull, Metadata = None, Relations = None,
      Spec = None, Fallback = None\<rparr>"

definition payments_meta :: EntityMeta where
  "payments_meta =
     \<lparr>em_UID = ''uid-1'', em_Etag = ''etag-1'', em_Name = ''payments'',
      em_Namespace = ''default'', em_Title = ''Payments'', em_Description = [],
      em_Annotations = None, em_Labels = Some [(''tier'', ''1'')],
      em_Tags = None,
      em_Links = Some [\<lparr>el_URL = ''https://a'', el_Title = ''a'', el_Icon = [], el_Type = []\<rparr>,
                       \<lparr>el_URL = ''https://b'', el_Title = ''b'', el_Icon = [], el_Type = []\<rparr>]\<rparr>"

definition payments_domain :: DomainEntity where
  "payments_domain =
     \<lparr>ent_ApiVersion = ''backstage.io/v1alpha1'', ent_Kind = ''Domain'',
      ent_Metadata = payments_meta, ent_Relations = None,
      ent_Spec = Some \<lparr>des_Owner = ''team-a''\<rparr>\<rparr>"

definition payments_api :: ApiEntity where
  "payments_api =
     \<lparr>ent_ApiVersion = ''backstage.io/v1alpha1'', ent_Kind = ''API'',
      ent_Metadata = payments_meta, ent_Relations = None,
      ent_Spec = Some \<lparr>aes_Type = ''openapi'', aes_Lifecycle = ''production'',
                       aes_Owner = ''team-a'', aes_Definition = ''openapi: 3.0.0'',
                       aes_System = ''billing''\<rparr>\<rparr>"

definition response_200 :: http_Response where
  "response_200 = \<lparr>StatusCode = 200, Status = ''200 OK''\<rparr>"

definition response_503 :: http_Response where
  "response_503 = \<lparr>StatusCode = 503, Status = ''503 Service Unavailable''\<rparr>"

text \<open>A fallback that differs from the request in every field it sets, and its configuration.\<close>

definition other_fallback :: "'spec fallbackModel" where
  "other_fallback =
     \<lparr>fb_ID = StringValue ''fallback-id'', fb_Name = StringValue ''other'',
      fb_Namespace = StringValue ''elsewhere'', fb_ApiVersion = StringNull, fb_Kind = StringNull,
      fb_Metadata = None, fb_Relations = None, fb_Spec = None\<rparr>"

definition config_with_other_fallback :: "'spec dataSourceModel" where
  "config_with_other_fallback =
     \<lparr>ID = StringNull, Name = StringValue ''payments'', Namespace = StringNull,
      ApiVersion = StringNull, Kind = StringNull, Metadata = None, Relations = None,
      Spec = None, Fallback = Some other_fallback\<rparr>"

text \<open>The catalog cannot be reached: an error and no response.\<close>

definition unreachable :: "'e catalog_client" where
  "unreachable name namespace = (None, None, Some ''connection refused'')"

text \<open>The catalog answers 503 with no entity and no error.\<close>

definition unavailable :: "'e catalog_client" where
  "unavailable name namespace = (None, Some response_503, None)"

text \<open>The request fails after a response was received.\<close>

definition failing_with_response :: "'e catalog_client" where
  "failing_with_response name namespace = (None, Some response_503, Some ''unexpected end of input'')"

definition serving :: "'e Entity \<Rightarrow> 'e catalog_client" where
  "serving entity name namespace = (Some entity, Some response_200, None)"

text \<open>The catalog answers 200 with a body that holds no entity, and no error.\<close>

definition answering_without_entity :: "'e catalog_client" where
  "answering_without_entity name namespace = (None, Some response_200, None)"

text \<open>
  An entity whose answer had no \<^verbatim>\<open>spec\<close>, no labels, no annotations, no tags and no links.
\<close>

definition bare_entity :: "'e Entity" where
  "bare_entity =
     \<lparr>ent_ApiVersion = ''backstage.io/v1alpha1'', ent_Kind = ''Domain'',
      ent_Metadata =
        \<lparr>em_UID = ''uid-2'', em_Etag = ''etag-2'', em_Name = ''payments'',
         em_Namespace = ''default'', em_Title = [], em_Description = [],
         em_Annotations = None, em_Labels = None, em_Tags = None, em_Links = None\<rparr>,
      ent_Relations = None, ent_Spec = None\<rparr>"

text \<open>
  A catalog that holds one entity, under one name and namespace, and answers 404 for every
  other name or namespace.
\<close>

definition response_404 :: http_Response where
  "response_404 = \<lparr>StatusCode = 404, Status = ''404 Not Found''\<rparr>"

definition holding :: "string \<Rightarrow> string \<Rightarrow> 'e Entity \<Rightarrow> 'e catalog_client" where
  "holding held_name held_namespace entity name namespace =
     (if name = held_name \<and> namespace = held_namespace
      then (Some entity, Some response_200, None)
      else (None, Some response_404, None))"

section \<open>Properties\<close>

subsection \<open>Auxiliary facts\<close>

lemma fold_append_slice:
  "fold (\<lambda>v acc. append_slice acc (f v)) xs acc =
     (if xs = [] then acc else Some (range_slice acc @ map f xs))"
proof (induction xs arbitrary: acc)
  case Nil
  show ?case by simp
next
  case (Cons x xs)
  have "fold (\<lambda>v acc. append_slice acc (f v)) (x # xs) acc
          = fold (\<lambda>v acc. append_slice acc (f v)) xs (append_slice acc (f x))"
    by simp
  also have "\<dots> = (if xs = [] then append_slice acc (f x)
                   else Some (range_slice (append_slice acc (f x)) @ map f xs))"
    by (rule Cons.IH)
  also have "\<dots> = Some (range_slice acc @ map f (x # xs))"
    by (cases acc) (simp_all add: append_slice_def range_slice_def)
  finally show ?case by simp
qed

lemma append_to_nil:
  "fold (\<lambda>v acc. append_slice acc (f v)) (range_slice src) None =
     (if range_slice src = [] then None else Some (map f (range_slice src)))"
  by (simp add: fold_append_slice range_slice_def)

lemma set_Append: "set (Append ds es) = set ds \<union> set es"
  by (induction es arbitrary: ds) auto

lemma HasError_Append: "HasError (Append ds es) = (HasError ds \<or> HasError es)"
  by (auto simp add: HasError_def list_ex_iff set_Append)

lemma no_diagnostics: "\<not> HasError []"
  by (simp add: HasError_def)

lemma HasError_AddWarning: "HasError (AddWarning ds s l) = HasError ds"
  unfolding AddWarning_def
  by (subst HasError_Append) (simp add: HasError_def)

lemma HasError_AddError: "HasError (AddError ds s l)"
  unfolding AddError_def
  by (subst HasError_Append) (simp add: HasError_def)

lemma warning_AddWarning: "list_ex is_warning (AddWarning ds s l)"
  unfolding AddWarning_def
  by (simp only: list_ex_iff set_Append) simp

lemma HasError_fallback_diagnostics:
  "HasError (fallback_diagnostics label state r err diags) = HasError diags"
  by (simp add: fallback_diagnostics_def Let_def HasError_AddWarning split: option.splits)

lemma warning_fallback_diagnostics:
  assumes "err \<noteq> None \<or> StatusCode r \<noteq> StatusOK"
  shows "list_ex is_warning (fallback_diagnostics label state r err diags)"
proof (cases "StatusCode r = StatusOK")
  case True
  with assms obtain e where "err = Some e"
    by auto
  with True show ?thesis
    by (simp add: fallback_diagnostics_def Let_def warning_AddWarning)
next
  case False
  then show ?thesis
    by (simp add: fallback_diagnostics_def Let_def warning_AddWarning)
qed

lemma defaultNamespace_fields:
  "Fallback (defaultNamespace cfg) = Fallback cfg"
  "Name (defaultNamespace cfg) = Name cfg"
  "Relations (defaultNamespace cfg) = Relations cfg"
  "\<not> IsNull (Namespace cfg) \<Longrightarrow> defaultNamespace cfg = cfg"
  "IsNull (Namespace cfg) \<Longrightarrow> Namespace (defaultNamespace cfg) = StringValue DefaultNamespaceName"
  by (simp_all add: defaultNamespace_def)

lemma domain_Read_outcome:
  "\<not> HasError getDiags \<Longrightarrow>
     outcome (domain_Read client (getDiags, cfg))
       = domain_Read_fetched (Append [] getDiags) (defaultNamespace cfg) (Get client (defaultNamespace cfg))"
  by (simp add: domain_Read_def Let_def HasError_Append no_diagnostics)

lemma api_Read_outcome:
  "\<not> HasError getDiags \<Longrightarrow>
     outcome (api_Read client (getDiags, cfg))
       = api_Read_fetched (Append [] getDiags) (defaultNamespace cfg) (Get client (defaultNamespace cfg))"
  by (simp add: api_Read_def Let_def HasError_Append no_diagnostics)

lemma domain_fetched_fallback:
  assumes "Fallback state = Some fb" and "err \<noteq> None \<or> StatusCode r \<noteq> StatusOK"
  shows "domain_Read_fetched diags state (ent, Some r, err)
           = Return (fallback_diagnostics ''Domain'' state r err diags) (Some (domain_fallback_block state fb))"
  using assms
  by (auto simp add: domain_Read_fetched_def fallback_diagnostics_def Let_def
        split: option.splits)

lemma api_fetched_fallback:
  assumes "Fallback state = Some fb" and "err \<noteq> None \<or> StatusCode r \<noteq> StatusOK"
  shows "api_Read_fetched diags state (ent, Some r, err)
           = Return (fallback_diagnostics ''API'' state r err diags) (Some (api_fallback_block state fb))"
  using assms
  by (auto simp add: api_Read_fetched_def fallback_diagnostics_def Let_def
        split: option.splits)

lemma domain_project_with_spec:
  assumes "ent_Spec d = Some sp"
  shows "domain_project state d
           = Some (state\<lparr>ID := StringValue (em_UID (ent_Metadata d)),
                         ApiVersion := StringValue (ent_ApiVersion d),
                         Kind := StringValue (ent_Kind d),
                         Relations := append_relations (Relations state) (ent_Relations d),
                         Spec := Some \<lparr>dspec_Owner = StringValue (des_Owner sp)\<rparr>,
                         Metadata := Some (project_metadata (ent_Metadata d))\<rparr>)"
  using assms
  by (simp add: domain_project_def Let_def)

lemma api_project_with_spec:
  assumes "ent_Spec a = Some sp"
  shows "api_project state a
           = Some (state\<lparr>ID := StringValue (em_UID (ent_Metadata a)),
                         ApiVersion := StringValue (ent_ApiVersion a),
                         Kind := StringValue (ent_Kind a),
                         Relations := append_relations (Relations state) (ent_Relations a),
                         Spec := Some \<lparr>aspec_Type = StringValue (aes_Type sp),
                                       aspec_Lifecycle = StringValue (aes_Lifecycle sp),
                                       aspec_Owner = StringValue (aes_Owner sp),
                                       aspec_Definition = StringValue (aes_Definition sp),
                                       aspec_System = StringValue (aes_System sp)\<rparr>,
                         Metadata := Some (project_metadata (ent_Metadata a))\<rparr>)"
  using assms
  by (simp add: api_project_def Let_def)

lemma project_without_spec:
  "ent_Spec d = None \<Longrightarrow> domain_project state d = None"
  "ent_Spec a = None \<Longrightarrow> api_project astate a = None"
  by (simp_all add: domain_project_def api_project_def Let_def)

lemma project_Some_has_spec:
  "domain_project state d = Some st \<Longrightarrow> \<exists>sp. ent_Spec d = Some sp"
  "api_project astate a = Some ast \<Longrightarrow> \<exists>sp. ent_Spec a = Some sp"
  by (cases "ent_Spec d", simp_all add: domain_project_def Let_def)
     (cases "ent_Spec a", simp_all add: api_project_def Let_def)

lemma domain_fetched_ok:
  assumes "StatusCode r = StatusOK"
  shows "domain_Read_fetched diags state (Some d, Some r, None)
           = (case domain_project state d of None \<Rightarrow> Panic | Some st \<Rightarrow> Return diags (Some st))"
  using assms
  by (simp add: domain_Read_fetched_def Let_def split: option.splits)

lemma api_fetched_ok:
  assumes "StatusCode r = StatusOK"
  shows "api_Read_fetched diags state (Some a, Some r, None)
           = (case api_project state a of None \<Rightarrow> Panic | Some st \<Rightarrow> Return diags (Some st))"
  using assms
  by (simp add: api_Read_fetched_def Let_def split: option.splits)

lemma fetched_nil_entity:
  assumes "StatusCode r = StatusOK"
  shows "domain_Read_fetched diags state (None, Some r, None) = Panic"
    and "api_Read_fetched diags astate (None, Some r, None) = Panic"
  using assms
  by (simp_all add: domain_Read_fetched_def api_Read_fetched_def Let_def split: option.splits)

lemma domain_fetched_no_fallback:
  assumes "Fallback state = None"
      and "err \<noteq> None \<or> (\<exists>r. response = Some r \<and> StatusCode r \<noteq> StatusOK)"
  shows "\<exists>ds. domain_Read_fetched diags state (ent, response, err) = Return ds None \<and> HasError ds"
  using assms
  by (auto simp add: domain_Read_fetched_def Let_def HasError_AddError
        split: option.splits)

lemma api_fetched_no_fallback:
  assumes "Fallback state = None"
      and "err \<noteq> None \<or> (\<exists>r. response = Some r \<and> StatusCode r \<noteq> StatusOK)"
  shows "\<exists>ds. api_Read_fetched diags state (ent, response, err) = Return ds None \<and> HasError ds"
  using assms
  by (auto simp add: api_Read_fetched_def Let_def HasError_AddError
        split: option.splits)

lemma domain_fetched_nil_response:
  assumes "Fallback state = Some fb"
  shows "domain_Read_fetched diags state (ent, None, Some e) = Panic"
  using assms
  by (simp add: domain_Read_fetched_def Let_def)

lemma api_fetched_nil_response:
  assumes "Fallback state = Some fb"
  shows "api_Read_fetched diags state (ent, None, Some e) = Panic"
  using assms
  by (simp add: api_Read_fetched_def Let_def)

lemma domain_fetched_returns_state:
  assumes "domain_Read_fetched diags state (ent, response, err) = Return ds (Some st)"
  shows "(\<exists>r d sp. response = Some r \<and> err = None \<and> StatusCode r = StatusOK \<and> ent = Some d
             \<and> ent_Spec d = Some sp \<and> ds = diags \<and> domain_project state d = Some st)
       \<or> (\<exists>r fb. response = Some r \<and> (err \<noteq> None \<or> StatusCode r \<noteq> StatusOK)
             \<and> Fallback state = Some fb \<and> st = domain_fallback_block state fb)"
proof (cases "err = None \<and> (\<exists>r. response = Some r \<and> StatusCode r = StatusOK)")
  case True
  then obtain r where r: "response = Some r" "err = None" "StatusCode r = StatusOK"
    by blast
  with assms obtain d where d: "ent = Some d"
    by (cases ent) (simp_all add: fetched_nil_entity)
  with assms r have "ds = diags \<and> domain_project state d = Some st"
    by (simp add: domain_fetched_ok split: option.splits)
  with r d project_Some_has_spec(1) [of state d st] show ?thesis
    by blast
next
  case False
  with assms show ?thesis
    by (auto simp add: domain_Read_fetched_def Let_def split: option.splits if_splits)
qed

lemma api_fetched_returns_state:
  assumes "api_Read_fetched diags state (ent, response, err) = Return ds (Some st)"
  shows "(\<exists>r a sp. response = Some r \<and> err = None \<and> StatusCode r = StatusOK \<and> ent = Some a
             \<and> ent_Spec a = Some sp \<and> ds = diags \<and> api_project state a = Some st)
       \<or> (\<exists>r fb. response = Some r \<and> (err \<noteq> None \<or> StatusCode r \<noteq> StatusOK)
             \<and> Fallback state = Some fb \<and> st = api_fallback_block state fb)"
proof (cases "err = None \<and> (\<exists>r. response = Some r \<and> StatusCode r = StatusOK)")
  case True
  then obtain r where r: "response = Some r" "err = None" "StatusCode r = StatusOK"
    by blast
  with assms obtain a where a: "ent = Some a"
    by (cases ent) (simp_all add: fetched_nil_entity)
  with assms r have "ds = diags \<and> api_project state a = Some st"
    by (simp add: api_fetched_ok split: option.splits)
  with r a project_Some_has_spec(2) [of state a st] show ?thesis
    by blast
next
  case False
  with assms show ?thesis
    by (auto simp add: api_Read_fetched_def Let_def split: option.splits if_splits)
qed

lemma project_metadata_maps:
  "md_Labels (project_metadata m) = Some (assign_entries Map.empty (range_slice (em_Labels m)))"
  "md_Annotations (project_metadata m) = Some (assign_entries Map.empty (range_slice (em_Annotations m)))"
  by (simp_all add: project_metadata_def Let_def)

lemma project_metadata_sequences:
  "md_Tags (project_metadata m) =
     (if range_slice (em_Tags m) = [] then None else Some (map StringValue (range_slice (em_Tags m))))"
  "md_Links (project_metadata m) =
     (if range_slice (em_Links m) = [] then None else Some (map project_link (range_slice (em_Links m))))"
  by (simp_all add: project_metadata_def Let_def append_tags_def append_links_def append_to_nil)

lemma Get_update_Fallback:
  "Get client (defaultNamespace (cfg\<lparr>Fallback := fb\<rparr>)) = Get client (defaultNamespace cfg)"
  by (simp add: Get_def Get_args_def defaultNamespace_def)

lemma Get_at_default:
  "IsNull (Namespace cfg) \<Longrightarrow>
     Get client (defaultNamespace cfg) = client (ValueString (Name cfg)) ''default''"
  by (simp add: Get_def Get_args_def defaultNamespace_def DefaultNamespaceName_def)

lemma calls_of_Read:
  "\<not> HasError getDiags \<Longrightarrow>
     calls (domain_Read dclient (getDiags, dcfg))
       = [(ValueString (Name dcfg), ValueString (Namespace (defaultNamespace dcfg)))]"
  "HasError getDiags \<Longrightarrow> calls (domain_Read dclient (getDiags, dcfg)) = []"
  "\<not> HasError getDiags \<Longrightarrow>
     calls (api_Read aclient (getDiags, acfg))
       = [(ValueString (Name acfg), ValueString (Namespace (defaultNamespace acfg)))]"
  "HasError getDiags \<Longrightarrow> calls (api_Read aclient (getDiags, acfg)) = []"
  by (simp_all add: domain_Read_def api_Read_def Let_def Get_args_def defaultNamespace_fields
        HasError_Append no_diagnostics)

lemma fallback_block_fields:
  "ID (domain_fallback_block state fb) = (if IsNull (fb_ID fb) then StringValue ''123456789'' else fb_ID fb)"
  "ApiVersion (domain_fallback_block state fb)
     = (if IsNull (fb_ApiVersion fb) then StringValue ''backstage.io/v1alpha1'' else fb_ApiVersion fb)"
  "Kind (domain_fallback_block state fb) = (if IsNull (fb_Kind fb) then StringValue KindDomain else fb_Kind fb)"
  "ID (api_fallback_block astate afb) = (if IsNull (fb_ID afb) then StringValue ''123456789'' else fb_ID afb)"
  "ApiVersion (api_fallback_block astate afb)
     = (if IsNull (fb_ApiVersion afb) then StringValue ''backstage.io/v1alpha1'' else fb_ApiVersion afb)"
  "Kind (api_fallback_block astate afb) = (if IsNull (fb_Kind afb) then StringValue KindAPI else fb_Kind afb)"
  by (simp_all add: domain_fallback_block_def api_fallback_block_def Let_def)

lemma fallback_block_copies:
  "Name (domain_fallback_block state fb) = fb_Name fb"
  "Namespace (domain_fallback_block state fb) = fb_Namespace fb"
  "Metadata (domain_fallback_block state fb) = fb_Metadata fb"
  "Relations (domain_fallback_block state fb) = fb_Relations fb"
  "Spec (domain_fallback_block state fb) = fb_Spec fb"
  "Name (api_fallback_block astate afb) = fb_Name afb"
  "Namespace (api_fallback_block astate afb) = fb_Namespace afb"
  "Metadata (api_fallback_block astate afb) = fb_Metadata afb"
  "Relations (api_fallback_block astate afb) = fb_Relations afb"
  "Spec (api_fallback_block astate afb) = fb_Spec afb"
  by (simp_all add: domain_fallback_block_def api_fallback_block_def Let_def)

lemma fallback_block_keeps_key:
  "\<exists>fb'. Fallback (domain_fallback_block state fb) = Some fb'
         \<and> fb_Name fb' = fb_Name fb \<and> fb_Namespace fb' = fb_Namespace fb"
  "\<exists>fb'. Fallback (api_fallback_block astate afb) = Some fb'
         \<and> fb_Name fb' = fb_Name afb \<and> fb_Namespace fb' = fb_Namespace afb"
  by (simp_all add: domain_fallback_block_def api_fallback_block_def Let_def)

lemma IsNull_iff: "IsNull s = (s = StringNull)"
  by (cases s) simp_all

lemma append_relations_nil:
  "append_relations None src =
     (if range_slice src = [] then None else Some (map project_relation (range_slice src)))"
  by (simp add: append_relations_def append_to_nil)

lemma assign_no_entries: "assign_entries m [] = m"
  by (simp add: assign_entries_def)

lemma status_200: "StatusCode response_200 = StatusOK"
  by (simp add: response_200_def StatusOK_def)

lemma status_503: "StatusCode response_503 \<noteq> StatusOK"
  by (simp add: response_503_def StatusOK_def)

lemma status_404: "StatusCode response_404 \<noteq> StatusOK"
  by (simp add: response_404_def StatusOK_def)

lemma Get_concrete:
  "Get unavailable state = (None, Some response_503, None)"
  "Get unreachable state = (None, None, Some ''connection refused'')"
  "Get failing_with_response state = (None, Some response_503, Some ''unexpected end of input'')"
  "Get (serving entity) state = (Some entity, Some response_200, None)"
  "Get answering_without_entity state = (None, Some response_200, None)"
  by (simp_all add: Get_def Get_args_def unavailable_def unreachable_def failing_with_response_def
        serving_def answering_without_entity_def)

lemma config_concrete:
  "Fallback config_without_fallback = None"
  "Fallback config_with_fallback = Some name_only_fallback"
  "Relations config_without_fallback = None"
  "Relations config_with_fallback = None"
  "IsNull (Namespace config_without_fallback)"
  "IsNull (Namespace config_with_fallback)"
  "Name config_with_fallback = StringValue ''payments''"
  "Name config_without_fallback = StringValue ''payments''"
  "config_without_fallback\<lparr>Fallback := Some name_only_fallback\<rparr> = config_with_fallback"
  by (simp_all add: config_without_fallback_def config_with_fallback_def)

lemma payments_meta_fields:
  "em_Labels payments_meta = Some [(''tier'', ''1'')]"
  "em_Annotations payments_meta = None"
  "em_Tags payments_meta = None"
  "em_Links payments_meta
     = Some [\<lparr>el_URL = ''https://a'', el_Title = ''a'', el_Icon = [], el_Type = []\<rparr>,
             \<lparr>el_URL = ''https://b'', el_Title = ''b'', el_Icon = [], el_Type = []\<rparr>]"
  "em_UID payments_meta = ''uid-1''"
  "ent_Metadata payments_domain = payments_meta"
  "ent_Metadata payments_api = payments_meta"
  "ent_Spec payments_domain = Some \<lparr>des_Owner = ''team-a''\<rparr>"
  "ent_Spec payments_api
     = Some \<lparr>aes_Type = ''openapi'', aes_Lifecycle = ''production'', aes_Owner = ''team-a'',
             aes_Definition = ''openapi: 3.0.0'', aes_System = ''billing''\<rparr>"
  by (simp_all add: payments_meta_def payments_domain_def payments_api_def)

lemma bare_entity_fields:
  "ent_Spec bare_entity = None"
  "em_Labels (ent_Metadata bare_entity) = None"
  "em_Annotations (ent_Metadata bare_entity) = None"
  "em_Tags (ent_Metadata bare_entity) = None"
  "em_Links (ent_Metadata bare_entity) = None"
  by (simp_all add: bare_entity_def)

lemma defaultNamespace_update_Fallback:
  "defaultNamespace (cfg\<lparr>Fallback := fb\<rparr>) = (defaultNamespace cfg)\<lparr>Fallback := fb\<rparr>"
  by (simp add: defaultNamespace_def)

lemma Namespace_defaultNamespace:
  "Namespace (defaultNamespace cfg)
     = (if IsNull (Namespace cfg) then StringValue DefaultNamespaceName else Namespace cfg)"
  by (simp add: defaultNamespace_def)

lemma domain_outcome_fetched:
  assumes "\<not> HasError getDiags" and "StatusCode r = StatusOK" and "ent_Spec d = Some sp"
      and "Get client (defaultNamespace cfg) = (Some d, Some r, None)"
  shows "outcome (domain_Read client (getDiags, cfg))
           = Return (Append [] getDiags)
               (Some ((defaultNamespace cfg)
                  \<lparr>ID := StringValue (em_UID (ent_Metadata d)),
                   ApiVersion := StringValue (ent_ApiVersion d),
                   Kind := StringValue (ent_Kind d),
                   Relations := append_relations (Relations cfg) (ent_Relations d),
                   Spec := Some \<lparr>dspec_Owner = StringValue (des_Owner sp)\<rparr>,
                   Metadata := Some (project_metadata (ent_Metadata d))\<rparr>))"
  using assms
  by (simp add: domain_Read_outcome domain_fetched_ok domain_project_with_spec
        defaultNamespace_fields)

lemma api_outcome_fetched:
  assumes "\<not> HasError getDiags" and "StatusCode r = StatusOK" and "ent_Spec a = Some sp"
      and "Get client (defaultNamespace cfg) = (Some a, Some r, None)"
  shows "outcome (api_Read client (getDiags, cfg))
           = Return (Append [] getDiags)
               (Some ((defaultNamespace cfg)
                  \<lparr>ID := StringValue (em_UID (ent_Metadata a)),
                   ApiVersion := StringValue (ent_ApiVersion a),
                   Kind := StringValue (ent_Kind a),
                   Relations := append_relations (Relations cfg) (ent_Relations a),
                   Spec := Some \<lparr>aspec_Type = StringValue (aes_Type sp),
                                 aspec_Lifecycle = StringValue (aes_Lifecycle sp),
                                 aspec_Owner = StringValue (aes_Owner sp),
                                 aspec_Definition = StringValue (aes_Definition sp),
                                 aspec_System = StringValue (aes_System sp)\<rparr>,
                   Metadata := Some (project_metadata (ent_Metadata a))\<rparr>))"
  using assms
  by (simp add: api_Read_outcome api_fetched_ok api_project_with_spec defaultNamespace_fields)

lemma domain_outcome_fallback:
  assumes "\<not> HasError getDiags" and "Fallback cfg = Some fb"
      and "err \<noteq> None \<or> StatusCode r \<noteq> StatusOK"
      and "Get client (defaultNamespace cfg) = (ent, Some r, err)"
  shows "outcome (domain_Read client (getDiags, cfg))
           = Return (fallback_diagnostics ''Domain'' (defaultNamespace cfg) r err (Append [] getDiags))
               (Some (domain_fallback_block (defaultNamespace cfg) fb))"
  using assms
  by (simp add: domain_Read_outcome defaultNamespace_fields domain_fetched_fallback)

lemma api_outcome_fallback:
  assumes "\<not> HasError getDiags" and "Fallback cfg = Some fb"
      and "err \<noteq> None \<or> StatusCode r \<noteq> StatusOK"
      and "Get client (defaultNamespace cfg) = (ent, Some r, err)"
  shows "outcome (api_Read client (getDiags, cfg))
           = Return (fallback_diagnostics ''API'' (defaultNamespace cfg) r err (Append [] getDiags))
               (Some (api_fallback_block (defaultNamespace cfg) fb))"
  using assms
  by (simp add: api_Read_outcome defaultNamespace_fields api_fetched_fallback)

lemma outcome_with_state_no_error:
  "outcome (domain_Read client (getDiags, cfg)) = Return ds (Some st) \<Longrightarrow> \<not> HasError getDiags"
  "outcome (api_Read aclient (getDiags, acfg)) = Return ads (Some ast) \<Longrightarrow> \<not> HasError getDiags"
  by (auto simp add: domain_Read_def api_Read_def Let_def HasError_Append no_diagnostics
        split: if_splits)

lemma fallback_block_Fallback:
  "Fallback (domain_fallback_block state fb)
     = Some (fb\<lparr>fb_ID := ID (domain_fallback_block state fb),
                 fb_ApiVersion := ApiVersion (domain_fallback_block state fb),
                 fb_Kind := Kind (domain_fallback_block state fb)\<rparr>)"
  "Fallback (api_fallback_block astate afb)
     = Some (afb\<lparr>fb_ID := ID (api_fallback_block astate afb),
                  fb_ApiVersion := ApiVersion (api_fallback_block astate afb),
                  fb_Kind := Kind (api_fallback_block astate afb)\<rparr>)"
  by (simp_all add: domain_fallback_block_def api_fallback_block_def Let_def)

lemma domain_output_from_one_source:
  assumes rel: "Relations cfg = None"
      and out: "outcome (domain_Read client (getDiags, cfg)) = Return ds (Some st)"
      and get: "Get client (defaultNamespace cfg) = (ent, response, err)"
  shows "(\<exists>r d sp. response = Some r \<and> err = None \<and> StatusCode r = StatusOK \<and> ent = Some d
           \<and> ent_Spec d = Some sp
           \<and> ID st = StringValue (em_UID (ent_Metadata d))
           \<and> Name st = Name cfg
           \<and> Namespace st = (if IsNull (Namespace cfg) then StringValue DefaultNamespaceName
                             else Namespace cfg)
           \<and> ApiVersion st = StringValue (ent_ApiVersion d)
           \<and> Kind st = StringValue (ent_Kind d)
           \<and> Metadata st = Some (project_metadata (ent_Metadata d))
           \<and> Relations st = (if range_slice (ent_Relations d) = [] then None
                             else Some (map project_relation (range_slice (ent_Relations d))))
           \<and> Spec st = Some \<lparr>dspec_Owner = StringValue (des_Owner sp)\<rparr>
           \<and> Fallback st = Fallback cfg
           \<and> (\<forall>fb. outcome (domain_Read client (getDiags, cfg\<lparr>Fallback := fb\<rparr>))
                       = Return ds (Some (st\<lparr>Fallback := fb\<rparr>))))
       \<or> (\<exists>r fb. response = Some r \<and> (err \<noteq> None \<or> StatusCode r \<noteq> StatusOK)
           \<and> Fallback cfg = Some fb
           \<and> ID st = (if IsNull (fb_ID fb) then StringValue ''123456789'' else fb_ID fb)
           \<and> Name st = fb_Name fb
           \<and> Namespace st = fb_Namespace fb
           \<and> ApiVersion st = (if IsNull (fb_ApiVersion fb)
                              then StringValue ''backstage.io/v1alpha1'' else fb_ApiVersion fb)
           \<and> Kind st = (if IsNull (fb_Kind fb) then StringValue KindDomain else fb_Kind fb)
           \<and> Metadata st = fb_Metadata fb
           \<and> Relations st = fb_Relations fb
           \<and> Spec st = fb_Spec fb
           \<and> Fallback st = Some (fb\<lparr>fb_ID := ID st, fb_ApiVersion := ApiVersion st,
                                      fb_Kind := Kind st\<rparr>)
           \<and> (\<forall>client' ent'. Get client' (defaultNamespace cfg) = (ent', response, err) \<longrightarrow>
                  outcome (domain_Read client' (getDiags, cfg)) = Return ds (Some st)))"
proof -
  have ok: "\<not> HasError getDiags"
    using out by (rule outcome_with_state_no_error)
  from out get have "domain_Read_fetched (Append [] getDiags) (defaultNamespace cfg) (ent, response, err)
                       = Return ds (Some st)"
    by (simp add: domain_Read_outcome [OF ok])
  from domain_fetched_returns_state [OF this]
  consider (fetched) r d sp where "response = Some r" "err = None" "StatusCode r = StatusOK"
      "ent = Some d" "ent_Spec d = Some sp" "ds = Append [] getDiags"
      "domain_project (defaultNamespace cfg) d = Some st"
    | (fallback) r fb where "response = Some r" "err \<noteq> None \<or> StatusCode r \<noteq> StatusOK"
      "Fallback (defaultNamespace cfg) = Some fb"
      "st = domain_fallback_block (defaultNamespace cfg) fb"
    by blast
  then show ?thesis
  proof cases
    case fetched
    have get': "Get client (defaultNamespace (cfg\<lparr>Fallback := fb\<rparr>)) = (Some d, Some r, None)" for fb
      using get fetched by (simp add: Get_update_Fallback)
    have others: "outcome (domain_Read client (getDiags, cfg\<lparr>Fallback := fb\<rparr>))
                    = Return ds (Some (st\<lparr>Fallback := fb\<rparr>))" for fb
      using domain_outcome_fetched [OF ok fetched(3) fetched(5) get', of fb] fetched(5,6,7)
      by (auto simp add: domain_project_with_spec defaultNamespace_update_Fallback
            defaultNamespace_fields)
    have fields: "ID st = StringValue (em_UID (ent_Metadata d))
           \<and> Name st = Name cfg
           \<and> Namespace st = (if IsNull (Namespace cfg) then StringValue DefaultNamespaceName
                             else Namespace cfg)
           \<and> ApiVersion st = StringValue (ent_ApiVersion d)
           \<and> Kind st = StringValue (ent_Kind d)
           \<and> Metadata st = Some (project_metadata (ent_Metadata d))
           \<and> Relations st = (if range_slice (ent_Relations d) = [] then None
                             else Some (map project_relation (range_slice (ent_Relations d))))
           \<and> Spec st = Some \<lparr>dspec_Owner = StringValue (des_Owner sp)\<rparr>
           \<and> Fallback st = Fallback cfg"
      using fetched(5,7) rel
      by (auto simp add: domain_project_with_spec defaultNamespace_fields
            Namespace_defaultNamespace append_relations_nil)
    from fetched(1-5) fields others show ?thesis
      by blast
  next
    case fallback
    have fb: "Fallback cfg = Some fb"
      using fallback(3) by (simp add: defaultNamespace_fields)
    have others: "outcome (domain_Read client' (getDiags, cfg)) = Return ds (Some st)"
      if "Get client' (defaultNamespace cfg) = (ent', response, err)" for client' ent'
      using domain_outcome_fallback [OF ok fb fallback(2), of client' ent'] that fallback(1,4)
        domain_outcome_fallback [OF ok fb fallback(2), of client ent] get out
      by simp
    have fields: "ID st = (if IsNull (fb_ID fb) then StringValue ''123456789'' else fb_ID fb)
           \<and> Name st = fb_Name fb
           \<and> Namespace st = fb_Namespace fb
           \<and> ApiVersion st = (if IsNull (fb_ApiVersion fb)
                              then StringValue ''backstage.io/v1alpha1'' else fb_ApiVersion fb)
           \<and> Kind st = (if IsNull (fb_Kind fb) then StringValue KindDomain else fb_Kind fb)
           \<and> Metadata st = fb_Metadata fb
           \<and> Relations st = fb_Relations fb
           \<and> Spec st = fb_Spec fb
           \<and> Fallback st = Some (fb\<lparr>fb_ID := ID st, fb_ApiVersion := ApiVersion st,
                                      fb_Kind := Kind st\<rparr>)"
      using fallback(4)
      by (simp add: fallback_block_fields fallback_block_copies fallback_block_Fallback)
    from fallback(1,2) fb fields others show ?thesis
      by blast
  qed
qed

lemma api_output_from_one_source:
  assumes rel: "Relations cfg = None"
      and out: "outcome (api_Read client (getDiags, cfg)) = Return ds (Some st)"
      and get: "Get client (defaultNamespace cfg) = (ent, response, err)"
  shows "(\<exists>r d sp. response = Some r \<and> err = None \<and> StatusCode r = StatusOK \<and> ent = Some d
           \<and> ent_Spec d = Some sp
           \<and> ID st = StringValue (em_UID (ent_Metadata d))
           \<and> Name st = Name cfg
           \<and> Namespace st = (if IsNull (Namespace cfg) then StringValue DefaultNamespaceName
                             else Namespace cfg)
           \<and> ApiVersion st = StringValue (ent_ApiVersion d)
           \<and> Kind st = StringValue (ent_Kind d)
           \<and> Metadata st = Some (project_metadata (ent_Metadata d))
           \<and> Relations st = (if range_slice (ent_Relations d) = [] then None
                             else Some (map project_relation (range_slice (ent_Relations d))))
           \<and> Spec st = Some \<lparr>aspec_Type = StringValue (aes_Type sp),
                              aspec_Lifecycle = StringValue (aes_Lifecycle sp),
                              aspec_Owner = StringValue (aes_Owner sp),
                              aspec_Definition = StringValue (aes_Definition sp),
                              aspec_System = StringValue (aes_System sp)\<rparr>
           \<and> Fallback st = Fallback cfg
           \<and> (\<forall>fb. outcome (api_Read client (getDiags, cfg\<lparr>Fallback := fb\<rparr>))
                       = Return ds (Some (st\<lparr>Fallback := fb\<rparr>))))
       \<or> (\<exists>r fb. response = Some r \<and> (err \<noteq> None \<or> StatusCode r \<noteq> StatusOK)
           \<and> Fallback cfg = Some fb
           \<and> ID st = (if IsNull (fb_ID fb) then StringValue ''123456789'' else fb_ID fb)
           \<and> Name st = fb_Name fb
           \<and> Namespace st = fb_Namespace fb
           \<and> ApiVersion st = (if IsNull (fb_ApiVersion fb)
                              then StringValue ''backstage.io/v1alpha1'' else fb_ApiVersion fb)
           \<and> Kind st = (if IsNull (fb_Kind fb) then StringValue KindAPI else fb_Kind fb)
           \<and> Metadata st = fb_Metadata fb
           \<and> Relations st = fb_Relations fb
           \<and> Spec st = fb_Spec fb
           \<and> Fallback st = Some (fb\<lparr>fb_ID := ID st, fb_ApiVersion := ApiVersion st,
                                      fb_Kind := Kind st\<rparr>)
           \<and> (\<forall>client' ent'. Get client' (defaultNamespace cfg) = (ent', response, err) \<longrightarrow>
                  outcome (api_Read client' (getDiags, cfg)) = Return ds (Some st)))"
proof -
  have ok: "\<not> HasError getDiags"
    using out by (rule outcome_with_state_no_error)
  from out get have "api_Read_fetched (Append [] getDiags) (defaultNamespace cfg) (ent, response, err)
                       = Return ds (Some st)"
    by (simp add: api_Read_outcome [OF ok])
  from api_fetched_returns_state [OF this]
  consider (fetched) r d sp where "response = Some r" "err = None" "StatusCode r = StatusOK"
      "ent = Some d" "ent_Spec d = Some sp" "ds = Append [] getDiags"
      "api_project (defaultNamespace cfg) d = Some st"
    | (fallback) r fb where "response = Some r" "err \<noteq> None \<or> StatusCode r \<noteq> StatusOK"
      "Fallback (defaultNamespace cfg) = Some fb"
      "st = api_fallback_block (defaultNamespace cfg) fb"
    by blast
  then show ?thesis
  proof cases
    case fetched
    have get': "Get client (defaultNamespace (cfg\<lparr>Fallback := fb\<rparr>)) = (Some d, Some r, None)" for fb
      using get fetched by (simp add: Get_update_Fallback)
    have others: "outcome (api_Read client (getDiags, cfg\<lparr>Fallback := fb\<rparr>))
                    = Return ds (Some (st\<lparr>Fallback := fb\<rparr>))" for fb
      using api_outcome_fetched [OF ok fetched(3) fetched(5) get', of fb] fetched(5,6,7)
      by (auto simp add: api_project_with_spec defaultNamespace_update_Fallback
            defaultNamespace_fields)
    have fields: "ID st = StringValue (em_UID (ent_Metadata d))
           \<and> Name st = Name cfg
           \<and> Namespace st = (if IsNull (Namespace cfg) then StringValue DefaultNamespaceName
                             else Namespace cfg)
           \<and> ApiVersion st = StringValue (ent_ApiVersion d)
           \<and> Kind st = StringValue (ent_Kind d)
           \<and> Metadata st = Some (project_metadata (ent_Metadata d))
           \<and> Relations st = (if range_slice (ent_Relations d) = [] then None
                             else Some (map project_relation (range_slice (ent_Relations d))))
           \<and> Spec st = Some \<lparr>aspec_Type = StringValue (aes_Type sp),
                              aspec_Lifecycle = StringValue (aes_Lifecycle sp),
                              aspec_Owner = StringValue (aes_Owner sp),
                              aspec_Definition = StringValue (aes_Definition sp),
                              aspec_System = StringValue (aes_System sp)\<rparr>
           \<and> Fallback st = Fallback cfg"
      using fetched(5,7) rel
      by (auto simp add: api_project_with_spec defaultNamespace_fields
            Namespace_defaultNamespace append_relations_nil)
    from fetched(1-5) fields others show ?thesis
      by blast
  next
    case fallback
    have fb: "Fallback cfg = Some fb"
      using fallback(3) by (simp add: defaultNamespace_fields)
    have others: "outcome (api_Read client' (getDiags, cfg)) = Return ds (Some st)"
      if "Get client' (defaultNamespace cfg) = (ent', response, err)" for client' ent'
      using api_outcome_fallback [OF ok fb fallback(2), of client' ent'] that fallback(1,4)
        api_outcome_fallback [OF ok fb fallback(2), of client ent] get out
      by simp
    have fields: "ID st = (if IsNull (fb_ID fb) then StringValue ''123456789'' else fb_ID fb)
           \<and> Name st = fb_Name fb
           \<and> Namespace st = fb_Namespace fb
           \<and> ApiVersion st = (if IsNull (fb_ApiVersion fb)
                              then StringValue ''backstage.io/v1alpha1'' else fb_ApiVersion fb)
           \<and> Kind st = (if IsNull (fb_Kind fb) then StringValue KindAPI else fb_Kind fb)
           \<and> Metadata st = fb_Metadata fb
           \<and> Relations st = fb_Relations fb
           \<and> Spec st = fb_Spec fb
           \<and> Fallback st = Some (fb\<lparr>fb_ID := ID st, fb_ApiVersion := ApiVersion st,
                                      fb_Kind := Kind st\<rparr>)"
      using fallback(4)
      by (simp add: fallback_block_fields fallback_block_copies fallback_block_Fallback)
    from fallback(1,2) fb fields others show ?thesis
      by blast
  qed
qed

lemma config_other:
  "Fallback config_with_other_fallback = Some other_fallback"
  "Relations config_with_other_fallback = None"
  "IsNull (Namespace config_with_other_fallback)"
  "Name config_with_other_fallback = StringValue ''payments''"
  "fb_ID other_fallback = StringValue ''fallback-id''"
  "fb_Name other_fallback = StringValue ''other''"
  "fb_Namespace other_fallback = StringValue ''elsewhere''"
  by (simp_all add: config_with_other_fallback_def other_fallback_def)

subsection \<open>The claims\<close>

text \<open>
  Claim C1: whenever the fetch fails and a fallback is configured, the read completes with a
  warning and the output \<open>id\<close>, \<open>apiVersion\<close> and \<open>kind\<close> are the fallback's values or the
  fixed defaults. \<^verbatim>\<open>Read\<close> does not do so when the client returns an error and no
  response, which is what a catalog that cannot be reached gives: after the warning for the
  error (domain line 215, API line 231) it reads \<^verbatim>\<open>response.StatusCode\<close> (line 218,
  line 234) through the nil pointer. The read below is that of a configuration with a
  fallback against such a client; it panics, for both kinds.
\<close>

theorem unreachable_catalog_with_fallback_panics:
  "outcome (domain_Read unreachable ([], config_with_fallback)) = Panic
   \<and> outcome (api_Read unreachable ([], config_with_fallback)) = Panic"
proof
  have fb: "Fallback (defaultNamespace config_with_fallback) = Some name_only_fallback"
    by (simp add: defaultNamespace_fields config_with_fallback_def)
  show "outcome (domain_Read unreachable ([], config_with_fallback)) = Panic"
    by (simp add: domain_Read_outcome [OF no_diagnostics] Get_concrete
          domain_fetched_nil_response [OF fb])
  show "outcome (api_Read unreachable ([], config_with_fallback)) = Panic"
    by (simp add: api_Read_outcome [OF no_diagnostics] Get_concrete
          api_fetched_nil_response [OF fb])
qed

text \<open>
  Claim C2: when the fetch fails (the error is not nil, or there is a response whose status is
  not 200) and no fallback is configured, the read returns with an error diagnostic and
  writes no state. It holds for both kinds, whatever the diagnostics of the configuration
  were.
\<close>

theorem fetch_failed_without_fallback_is_fatal:
  assumes "err \<noteq> None \<or> (\<exists>r. response = Some r \<and> StatusCode r \<noteq> StatusOK)"
  shows "(Fallback dcfg = None \<and> Get dclient (defaultNamespace dcfg) = (dent, response, err) \<longrightarrow>
            (\<exists>ds. outcome (domain_Read dclient (getDiags, dcfg)) = Return ds None \<and> HasError ds))
       \<and> (Fallback acfg = None \<and> Get aclient (defaultNamespace acfg) = (aent, response, err) \<longrightarrow>
            (\<exists>ds. outcome (api_Read aclient (getDiags, acfg)) = Return ds None \<and> HasError ds))"
proof (cases "HasError getDiags")
  case True
  then show ?thesis
    by (simp add: domain_Read_def api_Read_def Let_def HasError_Append no_diagnostics)
next
  case False
  show ?thesis
  proof (intro conjI impI)
    assume "Fallback dcfg = None \<and> Get dclient (defaultNamespace dcfg) = (dent, response, err)"
    then show "\<exists>ds. outcome (domain_Read dclient (getDiags, dcfg)) = Return ds None \<and> HasError ds"
      using domain_fetched_no_fallback [of "defaultNamespace dcfg" err response "Append [] getDiags" dent] assms
      by (simp add: domain_Read_outcome [OF False] defaultNamespace_fields)
  next
    assume "Fallback acfg = None \<and> Get aclient (defaultNamespace acfg) = (aent, response, err)"
    then show "\<exists>ds. outcome (api_Read aclient (getDiags, acfg)) = Return ds None \<and> HasError ds"
      using api_fetched_no_fallback [of "defaultNamespace acfg" err response "Append [] getDiags" aent] assms
      by (simp add: api_Read_outcome [OF False] defaultNamespace_fields)
  qed
qed

text \<open>The theorem at a concrete read.\<close>

theorem fetch_failed_without_fallback_is_fatal_witness:
  "(\<exists>ds. outcome (domain_Read unavailable ([], config_without_fallback)) = Return ds None \<and> HasError ds)
   \<and> (\<exists>ds. outcome (api_Read unavailable ([], config_without_fallback)) = Return ds None \<and> HasError ds)"
proof -
  have failed: "(None :: string option) \<noteq> None
                  \<or> (\<exists>r. Some response_503 = Some r \<and> StatusCode r \<noteq> StatusOK)"
    by (simp add: status_503)
  show ?thesis
    using fetch_failed_without_fallback_is_fatal [OF failed,
        where dcfg = config_without_fallback and dclient = unavailable and dent = None
          and acfg = config_without_fallback and aclient = unavailable and aent = None
          and getDiags = "[]"]
    by (simp add: Get_concrete config_concrete)
qed

text \<open>
  Claim C3: whenever the fetch succeeds (nil error, status 200), the written \<open>id\<close> is the
  \<open>metadata.uid\<close> of the fetched entity. \<^verbatim>\<open>Read\<close> does not do so for a 200 answer that
  holds no entity, nor for one whose entity has no \<^verbatim>\<open>spec\<close>: line 249 (API line 264) reads
  \<^verbatim>\<open>Metadata.UID\<close> through the entity pointer and line 265 (API line 280) reads through
  its \<^verbatim>\<open>Spec\<close> pointer, neither with a nil check. The reads below are those of such
  answers; they panic and write no state, for both kinds.
\<close>

theorem fetch_ok_without_entity_or_spec_panics:
  "outcome (domain_Read answering_without_entity ([], config_without_fallback)) = Panic
   \<and> outcome (api_Read answering_without_entity ([], config_without_fallback)) = Panic
   \<and> outcome (domain_Read (serving (payments_domain\<lparr>ent_Spec := None\<rparr>)) ([], config_without_fallback))
         = Panic
   \<and> outcome (api_Read (serving (payments_api\<lparr>ent_Spec := None\<rparr>)) ([], config_without_fallback))
         = Panic"
  by (simp add: domain_Read_outcome [OF no_diagnostics] api_Read_outcome [OF no_diagnostics]
        Get_concrete fetched_nil_entity [OF status_200] domain_fetched_ok [OF status_200]
        api_fetched_ok [OF status_200] project_without_spec)

text \<open>
  Claim C4: a read that writes a state took its fields from one source only. Either the fetch
  succeeded, and \<open>id\<close>, \<open>apiVersion\<close>, \<open>kind\<close>, \<open>metadata\<close>, \<open>relations\<close> and \<open>spec\<close>
  are the projection of the fetched entity, \<open>name\<close> and \<open>namespace\<close> are those of the
  request (the namespace after its default), and nothing is the fallback's: the same read
  with any other \<open>fallback\<close>, or none, writes the same state but for the \<open>fallback\<close>
  attribute, which is written back as configured. Or the fetch failed with a fallback
  configured, and \<open>id\<close>, \<open>name\<close>, \<open>namespace\<close>, \<open>apiVersion\<close>, \<open>kind\<close>, \<open>metadata\<close>,
  \<open>relations\<close> and \<open>spec\<close> are the fallback's, after its defaults, and nothing is the
  entity's: whatever entity the client returns with that response and error, the read writes
  the same state. The two cases exclude each other and there is no third. \<open>relations\<close> is a
  computed attribute of both schemas, so the configuration holds no value for it: that is
  the assumption.
\<close>

theorem output_from_one_source:
  assumes "Relations dcfg = None" and "Relations acfg = None"
  shows "(outcome (domain_Read dclient (getDiags, dcfg)) = Return dds (Some dst)
            \<and> Get dclient (defaultNamespace dcfg) = (dent, dresponse, derr) \<longrightarrow>
          ((\<exists>r d sp. dresponse = Some r \<and> derr = None \<and> StatusCode r = StatusOK \<and> dent = Some d
               \<and> ent_Spec d = Some sp
               \<and> ID dst = StringValue (em_UID (ent_Metadata d))
               \<and> Name dst = Name dcfg
               \<and> Namespace dst = (if IsNull (Namespace dcfg) then StringValue DefaultNamespaceName
                                 else Namespace dcfg)
               \<and> ApiVersion dst = StringValue (ent_ApiVersion d)
               \<and> Kind dst = StringValue (ent_Kind d)
               \<and> Metadata dst = Some (project_metadata (ent_Metadata d))
               \<and> Relations dst = (if range_slice (ent_Relations d) = [] then None
                                 else Some (map project_relation (range_slice (ent_Relations d))))
               \<and> Spec dst = Some \<lparr>dspec_Owner = StringValue (des_Owner sp)\<rparr>
               \<and> Fallback dst = Fallback dcfg
               \<and> (\<forall>fb. outcome (domain_Read dclient (getDiags, dcfg\<lparr>Fallback := fb\<rparr>))
                           = Return dds (Some (dst\<lparr>Fallback := fb\<rparr>))))
           \<or> (\<exists>r fb. dresponse = Some r \<and> (derr \<noteq> None \<or> StatusCode r \<noteq> StatusOK)
               \<and> Fallback dcfg = Some fb
               \<and> ID dst = (if IsNull (fb_ID fb) then StringValue ''123456789'' else fb_ID fb)
               \<and> Name dst = fb_Name fb
               \<and> Namespace dst = fb_Namespace fb
               \<and> ApiVersion dst = (if IsNull (fb_ApiVersion fb)
                                  then StringValue ''backstage.io/v1alpha1'' else fb_ApiVersion fb)
               \<and> Kind dst = (if IsNull (fb_Kind fb) then StringValue KindDomain else fb_Kind fb)
               \<and> Metadata dst = fb_Metadata fb
               \<and> Relations dst = fb_Relations fb
               \<and> Spec dst = fb_Spec fb
               \<and> Fallback dst = Some (fb\<lparr>fb_ID := ID dst, fb_ApiVersion := ApiVersion dst,
                                          fb_Kind := Kind dst\<rparr>)
               \<and> (\<forall>client' entity'. Get client' (defaultNamespace dcfg) = (entity', dresponse, derr) \<longrightarrow>
                      outcome (domain_Read client' (getDiags, dcfg)) = Return dds (Some dst)))))
       \<and> (outcome (api_Read aclient (getDiags, acfg)) = Return ads (Some ast)
            \<and> Get aclient (defaultNamespace acfg) = (aent, aresponse, aerr) \<longrightarrow>
          ((\<exists>r a sp. aresponse = Some r \<and> aerr = None \<and> StatusCode r = StatusOK \<and> aent = Some a
               \<and> ent_Spec a = Some sp
               \<and> ID ast = StringValue (em_UID (ent_Metadata a))
               \<and> Name ast = Name acfg
               \<and> Namespace ast = (if IsNull (Namespace acfg) then StringValue DefaultNamespaceName
                                 else Namespace acfg)
               \<and> ApiVersion ast = StringValue (ent_ApiVersion a)
               \<and> Kind ast = StringValue (ent_Kind a)
               \<and> Metadata ast = Some (project_metadata (ent_Metadata a))
               \<and> Relations ast = (if range_slice (ent_Relations a) = [] then None
                                 else Some (map project_relation (range_slice (ent_Relations a))))
               \<and> Spec ast = Some \<lparr>aspec_Type = StringValue (aes_Type sp),
                                  aspec_Lifecycle = StringValue (aes_Lifecycle sp),
                                  aspec_Owner = StringValue (aes_Owner sp),
                                  aspec_Definition = StringValue (aes_Definition sp),
                                  aspec_System = StringValue (aes_System sp)\<rparr>
               \<and> Fallback ast = Fallback acfg
               \<and> (\<forall>fb. outcome (api_Read aclient (getDiags, acfg\<lparr>Fallback := fb\<rparr>))
                           = Return ads (Some (ast\<lparr>Fallback := fb\<rparr>))))
           \<or> (\<exists>r fb. aresponse = Some r \<and> (aerr \<noteq> None \<or> StatusCode r \<noteq> StatusOK)
               \<and> Fallback acfg = Some fb
               \<and> ID ast = (if IsNull (fb_ID fb) then StringValue ''123456789'' else fb_ID fb)
               \<and> Name ast = fb_Name fb
               \<and> Namespace ast = fb_Namespace fb
               \<and> ApiVersion ast = (if IsNull (fb_ApiVersion fb)
                                  then StringValue ''backstage.io/v1alpha1'' else fb_ApiVersion fb)
               \<and> Kind ast = (if IsNull (fb_Kind fb) then StringValue KindAPI else fb_Kind fb)
               \<and> Metadata ast = fb_Metadata fb
               \<and> Relations ast = fb_Relations fb
               \<and> Spec ast = fb_Spec fb
               \<and> Fallback ast = Some (fb\<lparr>fb_ID := ID ast, fb_ApiVersion := ApiVersion ast,
                                          fb_Kind := Kind ast\<rparr>)
               \<and> (\<forall>client' entity'. Get client' (defaultNamespace acfg) = (entity', aresponse, aerr) \<longrightarrow>
                      outcome (api_Read client' (getDiags, acfg)) = Return ads (Some ast)))))"
proof (intro conjI impI)
  assume h: "outcome (domain_Read dclient (getDiags, dcfg)) = Return dds (Some dst)
               \<and> Get dclient (defaultNamespace dcfg) = (dent, dresponse, derr)"
  from domain_output_from_one_source [OF assms(1) h [THEN conjunct1] h [THEN conjunct2]]
  show "(\<exists>r d sp. dresponse = Some r \<and> derr = None \<and> StatusCode r = StatusOK \<and> dent = Some d
           \<and> ent_Spec d = Some sp
           \<and> ID dst = StringValue (em_UID (ent_Metadata d))
           \<and> Name dst = Name dcfg
           \<and> Namespace dst = (if IsNull (Namespace dcfg) then StringValue DefaultNamespaceName
                             else Namespace dcfg)
           \<and> ApiVersion dst = StringValue (ent_ApiVersion d)
           \<and> Kind dst = StringValue (ent_Kind d)
           \<and> Metadata dst = Some (project_metadata (ent_Metadata d))
           \<and> Relations dst = (if range_slice (ent_Relations d) = [] then None
                             else Some (map project_relation (range_slice (ent_Relations d))))
           \<and> Spec dst = Some \<lparr>dspec_Owner = StringValue (des_Owner sp)\<rparr>
           \<and> Fallback dst = Fallback dcfg
           \<and> (\<forall>fb. outcome (domain_Read dclient (getDiags, dcfg\<lparr>Fallback := fb\<rparr>))
                       = Return dds (Some (dst\<lparr>Fallback := fb\<rparr>))))
       \<or> (\<exists>r fb. dresponse = Some r \<and> (derr \<noteq> None \<or> StatusCode r \<noteq> StatusOK)
           \<and> Fallback dcfg = Some fb
           \<and> ID dst = (if IsNull (fb_ID fb) then StringValue ''123456789'' else fb_ID fb)
           \<and> Name dst = fb_Name fb
           \<and> Namespace dst = fb_Namespace fb
           \<and> ApiVersion dst = (if IsNull (fb_ApiVersion fb)
                              then StringValue ''backstage.io/v1alpha1'' else fb_ApiVersion fb)
           \<and> Kind dst = (if IsNull (fb_Kind fb) then StringValue KindDomain else fb_Kind fb)
           \<and> Metadata dst = fb_Metadata fb
           \<and> Relations dst = fb_Relations fb
           \<and> Spec dst = fb_Spec fb
           \<and> Fallback dst = Some (fb\<lparr>fb_ID := ID dst, fb_ApiVersion := ApiVersion dst,
                                      fb_Kind := Kind dst\<rparr>)
           \<and> (\<forall>client' entity'. Get client' (defaultNamespace dcfg) = (entity', dresponse, derr) \<longrightarrow>
                  outcome (domain_Read client' (getDiags, dcfg)) = Return dds (Some dst)))" .
next
  assume h: "outcome (api_Read aclient (getDiags, acfg)) = Return ads (Some ast)
               \<and> Get aclient (defaultNamespace acfg) = (aent, aresponse, aerr)"
  from api_output_from_one_source [OF assms(2) h [THEN conjunct1] h [THEN conjunct2]]
  show "(\<exists>r a sp. aresponse = Some r \<and> aerr = None \<and> StatusCode r = StatusOK \<and> aent = Some a
           \<and> ent_Spec a = Some sp
           \<and> ID ast = StringValue (em_UID (ent_Metadata a))
           \<and> Name ast = Name acfg
           \<and> Namespace ast = (if IsNull (Namespace acfg) then StringValue DefaultNamespaceName
                             else Namespace acfg)
           \<and> ApiVersion ast = StringValue (ent_ApiVersion a)
           \<and> Kind ast = StringValue (ent_Kind a)
           \<and> Metadata ast = Some (project_metadata (ent_Metadata a))
           \<and> Relations ast = (if range_slice (ent_Relations a) = [] then None
                             else Some (map project_relation (range_slice (ent_Relations a))))
           \<and> Spec ast = Some \<lparr>aspec_Type = StringValue (aes_Type sp),
                              aspec_Lifecycle = StringValue (aes_Lifecycle sp),
                              aspec_Owner = StringValue (aes_Owner sp),
                              aspec_Definition = StringValue (aes_Definition sp),
                              aspec_System = StringValue (aes_System sp)\<rparr>
           \<and> Fallback ast = Fallback acfg
           \<and> (\<forall>fb. outcome (api_Read aclient (getDiags, acfg\<lparr>Fallback := fb\<rparr>))
                       = Return ads (Some (ast\<lparr>Fallback := fb\<rparr>))))
       \<or> (\<exists>r fb. aresponse = Some r \<and> (aerr \<noteq> None \<or> StatusCode r \<noteq> StatusOK)
           \<and> Fallback acfg = Some fb
           \<and> ID ast = (if IsNull (fb_ID fb) then StringValue ''123456789'' else fb_ID fb)
           \<and> Name ast = fb_Name fb
           \<and> Namespace ast = fb_Namespace fb
           \<and> ApiVersion ast = (if IsNull (fb_ApiVersion fb)
                              then StringValue ''backstage.io/v1alpha1'' else fb_ApiVersion fb)
           \<and> Kind ast = (if IsNull (fb_Kind fb) then StringValue KindAPI else fb_Kind fb)
           \<and> Metadata ast = fb_Metadata fb
           \<and> Relations ast = fb_Relations fb
           \<and> Spec ast = fb_Spec fb
           \<and> Fallback ast = Some (fb\<lparr>fb_ID := ID ast, fb_ApiVersion := ApiVersion ast,
                                      fb_Kind := Kind ast\<rparr>)
           \<and> (\<forall>client' entity'. Get client' (defaultNamespace acfg) = (entity', aresponse, aerr) \<longrightarrow>
                  outcome (api_Read client' (getDiags, acfg)) = Return ads (Some ast)))" .
qed

text \<open>The theorem at a concrete read.\<close>

theorem output_from_one_source_witness:
  "(\<exists>ds st. outcome (domain_Read unavailable ([], config_with_other_fallback)) = Return ds (Some st)
       \<and> ID st = StringValue ''fallback-id'' \<and> Name st = StringValue ''other''
       \<and> Namespace st = StringValue ''elsewhere'')
   \<and> (\<exists>ds st. outcome (api_Read (serving payments_api) ([], config_with_other_fallback))
                  = Return ds (Some st)
       \<and> ID st = StringValue ''uid-1'' \<and> Name st = StringValue ''payments''
       \<and> Namespace st = StringValue ''default''
       \<and> Fallback st = Some other_fallback)"
proof -
  have failed: "(None :: string option) \<noteq> None \<or> StatusCode response_503 \<noteq> StatusOK"
    by (simp add: status_503)
  obtain ds st where d: "outcome (domain_Read unavailable ([], config_with_other_fallback))
                           = Return ds (Some st)"
    using domain_outcome_fallback [OF no_diagnostics config_other(1) failed Get_concrete(1)]
    by simp
  obtain ds' st' where a: "outcome (api_Read (serving payments_api) ([], config_with_other_fallback))
                              = Return ds' (Some st')"
    using api_outcome_fetched [OF no_diagnostics status_200 payments_meta_fields(9) Get_concrete(4)]
    by simp
  note t = output_from_one_source [OF config_other(2) config_other(2),
        where dclient = unavailable and getDiags = "[]" and dds = ds and dst = st
          and dent = None and dresponse = "Some response_503" and derr = None
          and aclient = "serving payments_api" and ads = ds' and ast = st'
          and aent = "Some payments_api" and aresponse = "Some response_200" and aerr = None]
  from t d status_503
  have "ID st = StringValue ''fallback-id'' \<and> Name st = StringValue ''other''
       \<and> Namespace st = StringValue ''elsewhere''"
    by (simp add: Get_concrete config_other)
  moreover from t a status_200
  have "ID st' = StringValue ''uid-1'' \<and> Name st' = StringValue ''payments''
       \<and> Namespace st' = StringValue ''default'' \<and> Fallback st' = Some other_fallback"
    by (simp add: Get_concrete config_other payments_meta_fields DefaultNamespaceName_def)
  ultimately show ?thesis
    using d a by simp
qed

text \<open>
  Claim C5: when the client returns an error and a fallback is configured, \<^verbatim>\<open>Read\<close> goes
  on after the error check and reads the status code of the response with no nil check. So on
  this path the read panics exactly when the response is nil; with a response it returns,
  and what it returns depends on the status code read (a second warning when it is not 200).
\<close>

theorem error_with_fallback_reads_status:
  assumes "\<not> HasError getDiags"
  shows "(Fallback dcfg = Some dfb \<and> Get dclient (defaultNamespace dcfg) = (dent, response, Some e) \<longrightarrow>
            (outcome (domain_Read dclient (getDiags, dcfg)) = Panic) = (response = None)
            \<and> (\<forall>r. response = Some r \<longrightarrow>
                  outcome (domain_Read dclient (getDiags, dcfg))
                    = Return (fallback_diagnostics ''Domain'' (defaultNamespace dcfg) r (Some e)
                                (Append [] getDiags))
                        (Some (domain_fallback_block (defaultNamespace dcfg) dfb))))
       \<and> (Fallback acfg = Some afb \<and> Get aclient (defaultNamespace acfg) = (aent, response, Some e) \<longrightarrow>
            (outcome (api_Read aclient (getDiags, acfg)) = Panic) = (response = None)
            \<and> (\<forall>r. response = Some r \<longrightarrow>
                  outcome (api_Read aclient (getDiags, acfg))
                    = Return (fallback_diagnostics ''API'' (defaultNamespace acfg) r (Some e)
                                (Append [] getDiags))
                        (Some (api_fallback_block (defaultNamespace acfg) afb))))"
proof (cases response)
  case None
  then show ?thesis
    using assms
    by (simp add: domain_Read_outcome api_Read_outcome defaultNamespace_fields
          domain_fetched_nil_response api_fetched_nil_response)
next
  case (Some r)
  then show ?thesis
    using assms
    by (simp add: domain_Read_outcome api_Read_outcome defaultNamespace_fields
          domain_fetched_fallback api_fetched_fallback)
qed

text \<open>The theorem at a concrete read.\<close>

theorem error_with_fallback_reads_status_witness:
  "outcome (domain_Read unreachable ([], config_with_fallback)) = Panic
   \<and> outcome (domain_Read failing_with_response ([], config_with_fallback)) \<noteq> Panic
   \<and> outcome (api_Read unreachable ([], config_with_fallback)) = Panic
   \<and> outcome (api_Read failing_with_response ([], config_with_fallback)) \<noteq> Panic"
proof -
  note nil = error_with_fallback_reads_status [OF no_diagnostics,
        where dcfg = config_with_fallback and dfb = name_only_fallback and dclient = unreachable
          and dent = None and response = None and e = "''connection refused''"
          and acfg = config_with_fallback and afb = name_only_fallback and aclient = unreachable
          and aent = None]
  note some = error_with_fallback_reads_status [OF no_diagnostics,
        where dcfg = config_with_fallback and dfb = name_only_fallback
          and dclient = failing_with_response
          and dent = None and response = "Some response_503" and e = "''unexpected end of input''"
          and acfg = config_with_fallback and afb = name_only_fallback
          and aclient = failing_with_response and aent = None]
  from nil some show ?thesis
    by (simp add: Get_concrete config_concrete)
qed

text \<open>
  Claim C6: when the configuration leaves the namespace unset, every call of the client has
  the namespace \<^verbatim>\<open>"default"\<close>, which is not empty. Unless decoding the configuration failed
  with an error, the client is called once, with the configured name and that namespace: the
  outcome of the read is the rest of \<^verbatim>\<open>Read\<close>, run on the state with the namespace
  \<^verbatim>\<open>"default"\<close>, applied to the client's answer at exactly these two arguments, and any
  client that answers the same there gives the same read.
\<close>

theorem unset_namespace_defaults_before_call:
  assumes "IsNull (Namespace dcfg)" and "IsNull (Namespace acfg)"
  shows "(\<forall>c \<in> set (calls (domain_Read dclient (getDiags, dcfg))). snd c = ''default'' \<and> snd c \<noteq> [])
       \<and> (\<not> HasError getDiags \<longrightarrow>
            calls (domain_Read dclient (getDiags, dcfg)) = [(ValueString (Name dcfg), ''default'')]
          \<and> outcome (domain_Read dclient (getDiags, dcfg))
              = domain_Read_fetched (Append [] getDiags) (dcfg\<lparr>Namespace := StringValue ''default''\<rparr>)
                  (dclient (ValueString (Name dcfg)) ''default'')
          \<and> (\<forall>client'. client' (ValueString (Name dcfg)) ''default''
                          = dclient (ValueString (Name dcfg)) ''default'' \<longrightarrow>
                 domain_Read client' (getDiags, dcfg) = domain_Read dclient (getDiags, dcfg)))
       \<and> (\<forall>c \<in> set (calls (api_Read aclient (getDiags, acfg))). snd c = ''default'' \<and> snd c \<noteq> [])
       \<and> (\<not> HasError getDiags \<longrightarrow>
            calls (api_Read aclient (getDiags, acfg)) = [(ValueString (Name acfg), ''default'')]
          \<and> outcome (api_Read aclient (getDiags, acfg))
              = api_Read_fetched (Append [] getDiags) (acfg\<lparr>Namespace := StringValue ''default''\<rparr>)
                  (aclient (ValueString (Name acfg)) ''default'')
          \<and> (\<forall>client'. client' (ValueString (Name acfg)) ''default''
                          = aclient (ValueString (Name acfg)) ''default'' \<longrightarrow>
                 api_Read client' (getDiags, acfg) = api_Read aclient (getDiags, acfg)))"
proof -
  have state: "defaultNamespace cfg = cfg\<lparr>Namespace := StringValue ''default''\<rparr>"
    if "IsNull (Namespace cfg)" for cfg :: "'s dataSourceModel"
    using that by (simp add: defaultNamespace_def DefaultNamespaceName_def)
  have d: "domain_Read client (getDiags, dcfg)
             = \<lparr>calls = [(ValueString (Name dcfg), ''default'')],
                outcome = domain_Read_fetched (Append [] getDiags)
                            (dcfg\<lparr>Namespace := StringValue ''default''\<rparr>)
                            (client (ValueString (Name dcfg)) ''default'')\<rparr>"
    if "\<not> HasError getDiags" for client
    using that assms(1)
    by (simp add: domain_Read_def Let_def HasError_Append no_diagnostics state Get_def Get_args_def)
  have a: "api_Read client (getDiags, acfg)
             = \<lparr>calls = [(ValueString (Name acfg), ''default'')],
                outcome = api_Read_fetched (Append [] getDiags)
                            (acfg\<lparr>Namespace := StringValue ''default''\<rparr>)
                            (client (ValueString (Name acfg)) ''default'')\<rparr>"
    if "\<not> HasError getDiags" for client
    using that assms(2)
    by (simp add: api_Read_def Let_def HasError_Append no_diagnostics state Get_def Get_args_def)
  show ?thesis
  proof (cases "HasError getDiags")
    case True
    then show ?thesis
      by (simp add: calls_of_Read)
  next
    case False
    then show ?thesis
      by (simp add: d a)
  qed
qed

text \<open>The theorem at a concrete read.\<close>

theorem unset_namespace_defaults_before_call_witness:
  "calls (domain_Read (holding ''payments'' ''default'' payments_domain) ([], config_without_fallback))
     = [(''payments'', ''default'')]
   \<and> (\<exists>st. outcome (domain_Read (holding ''payments'' ''default'' payments_domain)
                      ([], config_without_fallback)) = Return [] (Some st)
            \<and> ID st = StringValue ''uid-1'')
   \<and> (\<exists>ds. outcome (domain_Read (holding ''payments'' [] payments_domain)
                      ([], config_without_fallback)) = Return ds None
            \<and> HasError ds)
   \<and> calls (api_Read (holding ''payments'' ''default'' payments_api) ([], config_without_fallback))
     = [(''payments'', ''default'')]
   \<and> (\<exists>st. outcome (api_Read (holding ''payments'' ''default'' payments_api)
                      ([], config_without_fallback)) = Return [] (Some st)
            \<and> ID st = StringValue ''uid-1'')
   \<and> (\<exists>ds. outcome (api_Read (holding ''payments'' [] payments_api)
                      ([], config_without_fallback)) = Return ds None
            \<and> HasError ds)"
proof -
  note here = unset_namespace_defaults_before_call [OF config_concrete(5) config_concrete(5),
        where dclient = "holding ''payments'' ''default'' payments_domain"
          and aclient = "holding ''payments'' ''default'' payments_api" and getDiags = "[]"]
  note elsewhere = unset_namespace_defaults_before_call [OF config_concrete(5) config_concrete(5),
        where dclient = "holding ''payments'' [] payments_domain"
          and aclient = "holding ''payments'' [] payments_api" and getDiags = "[]"]
  note d_here = here [THEN conjunct2, THEN conjunct1, THEN mp, OF no_diagnostics]
  note a_here = here [THEN conjunct2, THEN conjunct2, THEN conjunct2, THEN mp, OF no_diagnostics]
  note d_elsewhere = elsewhere [THEN conjunct2, THEN conjunct1, THEN mp, OF no_diagnostics]
  note a_elsewhere =
    elsewhere [THEN conjunct2, THEN conjunct2, THEN conjunct2, THEN mp, OF no_diagnostics]
  have missing: "(None :: string option) \<noteq> None
                   \<or> (\<exists>r. Some response_404 = Some r \<and> StatusCode r \<noteq> StatusOK)"
    by (simp add: status_404)
  have nofb: "Fallback (config_without_fallback\<lparr>Namespace := StringValue ''default''\<rparr>) = None"
    by (simp add: config_without_fallback_def)
  from d_here [THEN conjunct1] a_here [THEN conjunct1]
  have "calls (domain_Read (holding ''payments'' ''default'' payments_domain)
                 ([], config_without_fallback)) = [(''payments'', ''default'')]"
    and "calls (api_Read (holding ''payments'' ''default'' payments_api)
                  ([], config_without_fallback)) = [(''payments'', ''default'')]"
    by (simp_all add: config_concrete)
  moreover from d_here [THEN conjunct2, THEN conjunct1] a_here [THEN conjunct2, THEN conjunct1]
  have "\<exists>st. outcome (domain_Read (holding ''payments'' ''default'' payments_domain)
                      ([], config_without_fallback)) = Return [] (Some st)
            \<and> ID st = StringValue ''uid-1''"
    and "\<exists>st. outcome (api_Read (holding ''payments'' ''default'' payments_api)
                      ([], config_without_fallback)) = Return [] (Some st)
            \<and> ID st = StringValue ''uid-1''"
    by (simp_all add: config_concrete holding_def domain_fetched_ok [OF status_200]
          api_fetched_ok [OF status_200]
          domain_project_with_spec [OF payments_meta_fields(8)]
          api_project_with_spec [OF payments_meta_fields(9)] payments_meta_fields)
  moreover from d_elsewhere [THEN conjunct2, THEN conjunct1]
    a_elsewhere [THEN conjunct2, THEN conjunct1]
    domain_fetched_no_fallback [OF nofb missing, of "[]" None]
    api_fetched_no_fallback [OF nofb missing, of "[]" None]
  have "\<exists>ds. outcome (domain_Read (holding ''payments'' [] payments_domain)
                      ([], config_without_fallback)) = Return ds None \<and> HasError ds"
    and "\<exists>ds. outcome (api_Read (holding ''payments'' [] payments_api)
                      ([], config_without_fallback)) = Return ds None \<and> HasError ds"
    by (simp_all add: config_concrete holding_def)
  ultimately show ?thesis
    by simp
qed

text \<open>
  Claim C7: whenever the fetch succeeds, the written metadata has \<open>labels\<close> and
  \<open>annotations\<close> maps, also when the maps of the fetched entity are nil. \<^verbatim>\<open>Read\<close> does
  not do so for an entity that has no \<^verbatim>\<open>spec\<close>: line 265 (API line 280) reads through the
  nil \<^verbatim>\<open>Spec\<close> pointer before the literal of line 268 (API line 287) allocates the maps.
  The read below is that of a 200 answer whose entity has nil maps and no \<^verbatim>\<open>spec\<close>; it
  panics and writes no state, for both kinds.
\<close>

theorem fetch_ok_without_spec_writes_no_labels:
  "em_Labels (ent_Metadata (bare_entity :: DomainEntity)) = None
   \<and> em_Annotations (ent_Metadata (bare_entity :: DomainEntity)) = None
   \<and> outcome (domain_Read (serving bare_entity) ([], config_with_fallback)) = Panic
   \<and> em_Labels (ent_Metadata (bare_entity :: ApiEntity)) = None
   \<and> em_Annotations (ent_Metadata (bare_entity :: ApiEntity)) = None
   \<and> outcome (api_Read (serving bare_entity) ([], config_with_fallback)) = Panic"
  by (simp add: domain_Read_outcome [OF no_diagnostics] api_Read_outcome [OF no_diagnostics]
        Get_concrete domain_fetched_ok [OF status_200] api_fetched_ok [OF status_200]
        project_without_spec bare_entity_fields)

text \<open>
  Claim C8: whenever the fetch succeeds and the fetched entity has no tags (no links), the
  written \<open>tags\<close> (\<open>links\<close>) are absent; otherwise they are the entity's, in order.
  \<^verbatim>\<open>Read\<close> does not do so for an entity that has no \<^verbatim>\<open>spec\<close>: line 265 (API line 280)
  reads through the nil \<^verbatim>\<open>Spec\<close> pointer before the metadata is built, so no metadata is
  written at all. The read below is that of a 200 answer whose entity has no tags, no links
  and no \<^verbatim>\<open>spec\<close>; it panics and writes no state, for both kinds.
\<close>

theorem fetch_ok_without_spec_writes_no_tags:
  "range_slice (em_Tags (ent_Metadata (bare_entity :: DomainEntity))) = []
   \<and> range_slice (em_Links (ent_Metadata (bare_entity :: DomainEntity))) = []
   \<and> outcome (domain_Read (serving bare_entity) ([], config_without_fallback)) = Panic
   \<and> range_slice (em_Tags (ent_Metadata (bare_entity :: ApiEntity))) = []
   \<and> range_slice (em_Links (ent_Metadata (bare_entity :: ApiEntity))) = []
   \<and> outcome (api_Read (serving bare_entity) ([], config_without_fallback)) = Panic"
  by (simp add: domain_Read_outcome [OF no_diagnostics] api_Read_outcome [OF no_diagnostics]
        Get_concrete domain_fetched_ok [OF status_200] api_fetched_ok [OF status_200]
        project_without_spec bare_entity_fields range_slice_def)

text \<open>
  Claim C9: on the fallback path the written \<open>namespace\<close> and \<open>name\<close> are the fallback's,
  copied as they are: a null namespace of the fallback is written as null, also when the
  namespace of the request was unset and the client was called with \<^verbatim>\<open>"default"\<close>. The
  defaults touch neither the name nor the namespace of the fallback.
\<close>

theorem fallback_namespace_verbatim:
  assumes "\<not> HasError getDiags" and "err \<noteq> None \<or> StatusCode r \<noteq> StatusOK"
  shows "(Fallback dcfg = Some dfb \<and> Get dclient (defaultNamespace dcfg) = (dent, Some r, err) \<longrightarrow>
            (\<exists>ds st fb'.
                outcome (domain_Read dclient (getDiags, dcfg)) = Return ds (Some st)
              \<and> Namespace st = fb_Namespace dfb \<and> Name st = fb_Name dfb
              \<and> (IsNull (fb_Namespace dfb) \<longrightarrow> Namespace st = StringNull)
              \<and> Fallback st = Some fb'
              \<and> fb_Name fb' = fb_Name dfb \<and> fb_Namespace fb' = fb_Namespace dfb)
            \<and> (IsNull (Namespace dcfg) \<longrightarrow>
                  calls (domain_Read dclient (getDiags, dcfg)) = [(ValueString (Name dcfg), ''default'')]))
       \<and> (Fallback acfg = Some afb \<and> Get aclient (defaultNamespace acfg) = (aent, Some r, err) \<longrightarrow>
            (\<exists>ds st fb'.
                outcome (api_Read aclient (getDiags, acfg)) = Return ds (Some st)
              \<and> Namespace st = fb_Namespace afb \<and> Name st = fb_Name afb
              \<and> (IsNull (fb_Namespace afb) \<longrightarrow> Namespace st = StringNull)
              \<and> Fallback st = Some fb'
              \<and> fb_Name fb' = fb_Name afb \<and> fb_Namespace fb' = fb_Namespace afb)
            \<and> (IsNull (Namespace acfg) \<longrightarrow>
                  calls (api_Read aclient (getDiags, acfg)) = [(ValueString (Name acfg), ''default'')]))"
proof (intro conjI impI)
  assume h: "Fallback dcfg = Some dfb \<and> Get dclient (defaultNamespace dcfg) = (dent, Some r, err)"
  then have "outcome (domain_Read dclient (getDiags, dcfg))
               = Return (fallback_diagnostics ''Domain'' (defaultNamespace dcfg) r err (Append [] getDiags))
                   (Some (domain_fallback_block (defaultNamespace dcfg) dfb))"
    using assms
    by (simp add: domain_Read_outcome defaultNamespace_fields domain_fetched_fallback)
  then show "\<exists>ds st fb'.
                outcome (domain_Read dclient (getDiags, dcfg)) = Return ds (Some st)
              \<and> Namespace st = fb_Namespace dfb \<and> Name st = fb_Name dfb
              \<and> (IsNull (fb_Namespace dfb) \<longrightarrow> Namespace st = StringNull)
              \<and> Fallback st = Some fb'
              \<and> fb_Name fb' = fb_Name dfb \<and> fb_Namespace fb' = fb_Namespace dfb"
    using fallback_block_keeps_key(1) [of "defaultNamespace dcfg" dfb]
    by (auto simp add: fallback_block_copies IsNull_iff)
next
  assume "IsNull (Namespace dcfg)"
  then show "calls (domain_Read dclient (getDiags, dcfg)) = [(ValueString (Name dcfg), ''default'')]"
    using assms(1)
    by (simp add: calls_of_Read defaultNamespace_fields DefaultNamespaceName_def)
next
  assume h: "Fallback acfg = Some afb \<and> Get aclient (defaultNamespace acfg) = (aent, Some r, err)"
  then have "outcome (api_Read aclient (getDiags, acfg))
               = Return (fallback_diagnostics ''API'' (defaultNamespace acfg) r err (Append [] getDiags))
                   (Some (api_fallback_block (defaultNamespace acfg) afb))"
    using assms
    by (simp add: api_Read_outcome defaultNamespace_fields api_fetched_fallback)
  then show "\<exists>ds st fb'.
                outcome (api_Read aclient (getDiags, acfg)) = Return ds (Some st)
              \<and> Namespace st = fb_Namespace afb \<and> Name st = fb_Name afb
              \<and> (IsNull (fb_Namespace afb) \<longrightarrow> Namespace st = StringNull)
              \<and> Fallback st = Some fb'
              \<and> fb_Name fb' = fb_Name afb \<and> fb_Namespace fb' = fb_Namespace afb"
    using fallback_block_keeps_key(2) [of "defaultNamespace acfg" afb]
    by (auto simp add: fallback_block_copies IsNull_iff)
next
  assume "IsNull (Namespace acfg)"
  then show "calls (api_Read aclient (getDiags, acfg)) = [(ValueString (Name acfg), ''default'')]"
    using assms(1)
    by (simp add: calls_of_Read defaultNamespace_fields DefaultNamespaceName_def)
qed

text \<open>The theorem at a concrete read.\<close>

theorem fallback_namespace_verbatim_witness:
  "(\<exists>ds st. outcome (domain_Read unavailable ([], config_with_fallback)) = Return ds (Some st)
        \<and> Namespace st = StringNull \<and> Name st = StringValue ''payments'')
   \<and> calls (domain_Read unavailable ([], config_with_fallback)) = [(''payments'', ''default'')]
   \<and> (\<exists>ds st. outcome (api_Read unavailable ([], config_with_fallback)) = Return ds (Some st)
        \<and> Namespace st = StringNull \<and> Name st = StringValue ''payments'')
   \<and> calls (api_Read unavailable ([], config_with_fallback)) = [(''payments'', ''default'')]"
proof -
  have failed: "(None :: string option) \<noteq> None \<or> StatusCode response_503 \<noteq> StatusOK"
    by (simp add: status_503)
  have fb: "fb_Namespace name_only_fallback = StringNull"
    "fb_Name name_only_fallback = StringValue ''payments''"
    by (simp_all add: name_only_fallback_def)
  show ?thesis
    using fallback_namespace_verbatim [OF no_diagnostics failed,
        where dcfg = config_with_fallback and dfb = name_only_fallback and dclient = unavailable
          and dent = None
          and acfg = config_with_fallback and afb = name_only_fallback and aclient = unavailable
          and aent = None]
    by (simp add: Get_concrete config_concrete fb) blast
qed

text \<open>
  Claim C10: in every kind's schema, each attribute of the \<open>fallback\<close> block, \<open>name\<close>
  included, is optional. The API schema is so. The Domain schema declares the \<open>name\<close> of its
  \<open>fallback\<close> block \<^verbatim>\<open>Required: true\<close> (line 129), so its fallback attributes are not all
  optional.
\<close>

theorem domain_fallback_name_is_required:
  "map_option flag (map_of (fallback_attributes domain_Schema) ''name'') = Some Required
   \<and> \<not> attributes_optional (fallback_attributes domain_Schema)
   \<and> map_option flag (map_of (fallback_attributes api_Schema) ''name'') = Some Optional
   \<and> attributes_optional (fallback_attributes api_Schema)"
  by (simp add: fallback_attributes_def attributes_optional_def domain_Schema_def api_Schema_def)

subsection \<open>Further properties\<close>

text \<open>
  The fallback read with a response at hand: when the fetch fails, a fallback is configured
  and the client returned a response, the read returns with warnings and no error, and the
  written \<open>id\<close>, \<open>apiVersion\<close> and \<open>kind\<close> are the fallback's values where they are not
  null, and otherwise \<^verbatim>\<open>"123456789"\<close>, \<^verbatim>\<open>"backstage.io/v1alpha1"\<close> and the kind's
  constant.
\<close>

theorem fallback_identity_when_response_present:
  assumes "\<not> HasError getDiags" and "err \<noteq> None \<or> StatusCode r \<noteq> StatusOK"
  shows "(Fallback dcfg = Some dfb \<and> Get dclient (defaultNamespace dcfg) = (dent, Some r, err) \<longrightarrow>
            (\<exists>ds st.
                outcome (domain_Read dclient (getDiags, dcfg)) = Return ds (Some st)
              \<and> \<not> HasError ds \<and> list_ex is_warning ds
              \<and> ID st = (if IsNull (fb_ID dfb) then StringValue ''123456789'' else fb_ID dfb)
              \<and> ApiVersion st = (if IsNull (fb_ApiVersion dfb)
                                 then StringValue ''backstage.io/v1alpha1'' else fb_ApiVersion dfb)
              \<and> Kind st = (if IsNull (fb_Kind dfb) then StringValue KindDomain else fb_Kind dfb)))
       \<and> (Fallback acfg = Some afb \<and> Get aclient (defaultNamespace acfg) = (aent, Some r, err) \<longrightarrow>
            (\<exists>ds st.
                outcome (api_Read aclient (getDiags, acfg)) = Return ds (Some st)
              \<and> \<not> HasError ds \<and> list_ex is_warning ds
              \<and> ID st = (if IsNull (fb_ID afb) then StringValue ''123456789'' else fb_ID afb)
              \<and> ApiVersion st = (if IsNull (fb_ApiVersion afb)
                                 then StringValue ''backstage.io/v1alpha1'' else fb_ApiVersion afb)
              \<and> Kind st = (if IsNull (fb_Kind afb) then StringValue KindAPI else fb_Kind afb)))"
  using assms
  by (simp add: domain_Read_outcome api_Read_outcome defaultNamespace_fields
        domain_fetched_fallback api_fetched_fallback HasError_Append no_diagnostics
        HasError_fallback_diagnostics warning_fallback_diagnostics fallback_block_fields)

text \<open>The theorem at a concrete read.\<close>

theorem fallback_identity_when_response_present_witness:
  "(\<exists>ds st. outcome (domain_Read unavailable ([], config_with_fallback)) = Return ds (Some st)
        \<and> \<not> HasError ds \<and> list_ex is_warning ds
        \<and> ID st = StringValue ''123456789'' \<and> ApiVersion st = StringValue ''backstage.io/v1alpha1''
        \<and> Kind st = StringValue KindDomain)
   \<and> (\<exists>ds st. outcome (api_Read unavailable ([], config_with_fallback)) = Return ds (Some st)
        \<and> \<not> HasError ds \<and> list_ex is_warning ds
        \<and> ID st = StringValue ''123456789'' \<and> ApiVersion st = StringValue ''backstage.io/v1alpha1''
        \<and> Kind st = StringValue KindAPI)"
proof -
  have failed: "(None :: string option) \<noteq> None \<or> StatusCode response_503 \<noteq> StatusOK"
    by (simp add: status_503)
  have fb: "IsNull (fb_ID name_only_fallback)" "IsNull (fb_ApiVersion name_only_fallback)"
    "IsNull (fb_Kind name_only_fallback)"
    by (simp_all add: name_only_fallback_def)
  show ?thesis
    using fallback_identity_when_response_present [OF no_diagnostics failed,
        where dcfg = config_with_fallback and dfb = name_only_fallback and dclient = unavailable
          and dent = None
          and acfg = config_with_fallback and afb = name_only_fallback and aclient = unavailable
          and aent = None]
    by (simp add: Get_concrete config_concrete fb)
qed

text \<open>
  The \<open>id\<close> of a fetched entity that has a \<^verbatim>\<open>spec\<close>: when the client returns no error,
  status 200 and an entity with a \<^verbatim>\<open>spec\<close>, the read returns the state whose \<open>id\<close> is
  the entity's \<open>metadata.uid\<close>, whatever the \<open>fallback\<close> of the configuration is.
\<close>

theorem fetch_ok_id_is_uid:
  assumes "\<not> HasError getDiags" and "StatusCode r = StatusOK"
  shows "(Get dclient (defaultNamespace dcfg) = (Some d, Some r, None) \<and> ent_Spec d = Some dsp \<longrightarrow>
            (\<forall>fb. \<exists>st. outcome (domain_Read dclient (getDiags, dcfg\<lparr>Fallback := fb\<rparr>))
                         = Return (Append [] getDiags) (Some st)
                      \<and> ID st = StringValue (em_UID (ent_Metadata d))))
       \<and> (Get aclient (defaultNamespace acfg) = (Some a, Some r, None) \<and> ent_Spec a = Some asp \<longrightarrow>
            (\<forall>fb. \<exists>st. outcome (api_Read aclient (getDiags, acfg\<lparr>Fallback := fb\<rparr>))
                         = Return (Append [] getDiags) (Some st)
                      \<and> ID st = StringValue (em_UID (ent_Metadata a))))"
  using assms
  by (simp add: domain_Read_outcome api_Read_outcome Get_update_Fallback domain_fetched_ok
        api_fetched_ok domain_project_with_spec api_project_with_spec)

text \<open>The theorem at a concrete read.\<close>

theorem fetch_ok_id_is_uid_witness:
  "(\<exists>st. outcome (domain_Read (serving payments_domain) ([], config_without_fallback))
            = Return [] (Some st) \<and> ID st = StringValue ''uid-1'')
   \<and> (\<exists>st. outcome (domain_Read (serving payments_domain) ([], config_with_fallback))
            = Return [] (Some st) \<and> ID st = StringValue ''uid-1'')
   \<and> (\<exists>st. outcome (api_Read (serving payments_api) ([], config_without_fallback))
            = Return [] (Some st) \<and> ID st = StringValue ''uid-1'')
   \<and> (\<exists>st. outcome (api_Read (serving payments_api) ([], config_with_fallback))
            = Return [] (Some st) \<and> ID st = StringValue ''uid-1'')"
proof -
  note t = fetch_ok_id_is_uid [OF no_diagnostics status_200,
        where dcfg = config_without_fallback and dclient = "serving payments_domain"
          and d = payments_domain and dsp = "\<lparr>des_Owner = ''team-a''\<rparr>"
          and acfg = config_without_fallback and aclient = "serving payments_api"
          and a = payments_api
          and asp = "\<lparr>aes_Type = ''openapi'', aes_Lifecycle = ''production'', aes_Owner = ''team-a'',
                     aes_Definition = ''openapi: 3.0.0'', aes_System = ''billing''\<rparr>"]
  have d: "\<forall>fb. \<exists>st. outcome (domain_Read (serving payments_domain)
                                 ([], config_without_fallback\<lparr>Fallback := fb\<rparr>))
                         = Return [] (Some st) \<and> ID st = StringValue ''uid-1''"
    using t by (simp add: Get_concrete payments_meta_fields)
  have a: "\<forall>fb. \<exists>st. outcome (api_Read (serving payments_api)
                                 ([], config_without_fallback\<lparr>Fallback := fb\<rparr>))
                         = Return [] (Some st) \<and> ID st = StringValue ''uid-1''"
    using t by (simp add: Get_concrete payments_meta_fields)
  have same: "config_without_fallback\<lparr>Fallback := None\<rparr> = (config_without_fallback :: 's dataSourceModel)"
    by (simp add: config_without_fallback_def)
  from d [THEN spec, of None] d [THEN spec, of "Some name_only_fallback"]
       a [THEN spec, of None] a [THEN spec, of "Some name_only_fallback"]
  show ?thesis
    by (simp add: config_concrete same)
qed

text \<open>
  The maps of a fetched entity that has a \<^verbatim>\<open>spec\<close>: the \<open>labels\<close> and \<open>annotations\<close> of
  the written metadata are maps, not nil; for a nil map of the entity the written map is the
  empty one.
\<close>

theorem fetch_ok_labels_annotations_present:
  assumes "\<not> HasError getDiags" and "StatusCode r = StatusOK"
  shows "(Get dclient (defaultNamespace dcfg) = (Some d, Some r, None) \<and> ent_Spec d = Some dsp \<longrightarrow>
            (\<exists>st md labels annotations.
                outcome (domain_Read dclient (getDiags, dcfg)) = Return (Append [] getDiags) (Some st)
              \<and> Metadata st = Some md
              \<and> md_Labels md = Some labels \<and> md_Annotations md = Some annotations
              \<and> (em_Labels (ent_Metadata d) = None \<longrightarrow> labels = Map.empty)
              \<and> (em_Annotations (ent_Metadata d) = None \<longrightarrow> annotations = Map.empty)))
       \<and> (Get aclient (defaultNamespace acfg) = (Some a, Some r, None) \<and> ent_Spec a = Some asp \<longrightarrow>
            (\<exists>st md labels annotations.
                outcome (api_Read aclient (getDiags, acfg)) = Return (Append [] getDiags) (Some st)
              \<and> Metadata st = Some md
              \<and> md_Labels md = Some labels \<and> md_Annotations md = Some annotations
              \<and> (em_Labels (ent_Metadata a) = None \<longrightarrow> labels = Map.empty)
              \<and> (em_Annotations (ent_Metadata a) = None \<longrightarrow> annotations = Map.empty)))"
  using assms
  by (simp add: domain_Read_outcome api_Read_outcome domain_fetched_ok api_fetched_ok
        domain_project_with_spec api_project_with_spec project_metadata_maps range_slice_def
        assign_no_entries)

text \<open>The theorem at a concrete read.\<close>

theorem fetch_ok_labels_annotations_present_witness:
  "(\<exists>st md labels.
       outcome (domain_Read (serving payments_domain) ([], config_with_fallback)) = Return [] (Some st)
     \<and> Metadata st = Some md \<and> md_Labels md = Some labels \<and> md_Annotations md = Some Map.empty)
   \<and> (\<exists>st md labels.
       outcome (api_Read (serving payments_api) ([], config_with_fallback)) = Return [] (Some st)
     \<and> Metadata st = Some md \<and> md_Labels md = Some labels \<and> md_Annotations md = Some Map.empty)"
  using fetch_ok_labels_annotations_present [OF no_diagnostics status_200,
        where dcfg = config_with_fallback and dclient = "serving payments_domain"
          and d = payments_domain and dsp = "\<lparr>des_Owner = ''team-a''\<rparr>"
          and acfg = config_with_fallback and aclient = "serving payments_api"
          and a = payments_api
          and asp = "\<lparr>aes_Type = ''openapi'', aes_Lifecycle = ''production'', aes_Owner = ''team-a'',
                     aes_Definition = ''openapi: 3.0.0'', aes_System = ''billing''\<rparr>"]
  by (simp add: Get_concrete payments_meta_fields)

text \<open>
  The sequences of a fetched entity that has a \<^verbatim>\<open>spec\<close>: the written \<open>tags\<close> (and
  \<open>links\<close>) are nil when the entity has none, whether its slice is nil or empty, and
  otherwise are the entity's, one output element for each, in the entity's order.
\<close>

theorem fetch_ok_tags_links_absent_or_in_order:
  assumes "\<not> HasError getDiags" and "StatusCode r = StatusOK"
  shows "(Get dclient (defaultNamespace dcfg) = (Some d, Some r, None) \<and> ent_Spec d = Some dsp \<longrightarrow>
            (\<exists>st md.
                outcome (domain_Read dclient (getDiags, dcfg)) = Return (Append [] getDiags) (Some st)
              \<and> Metadata st = Some md
              \<and> md_Tags md = (if range_slice (em_Tags (ent_Metadata d)) = [] then None
                              else Some (map StringValue (range_slice (em_Tags (ent_Metadata d)))))
              \<and> md_Links md = (if range_slice (em_Links (ent_Metadata d)) = [] then None
                               else Some (map project_link (range_slice (em_Links (ent_Metadata d)))))))
       \<and> (Get aclient (defaultNamespace acfg) = (Some a, Some r, None) \<and> ent_Spec a = Some asp \<longrightarrow>
            (\<exists>st md.
                outcome (api_Read aclient (getDiags, acfg)) = Return (Append [] getDiags) (Some st)
              \<and> Metadata st = Some md
              \<and> md_Tags md = (if range_slice (em_Tags (ent_Metadata a)) = [] then None
                              else Some (map StringValue (range_slice (em_Tags (ent_Metadata a)))))
              \<and> md_Links md = (if range_slice (em_Links (ent_Metadata a)) = [] then None
                               else Some (map project_link (range_slice (em_Links (ent_Metadata a)))))))"
  using assms
  by (simp add: domain_Read_outcome api_Read_outcome domain_fetched_ok api_fetched_ok
        domain_project_with_spec api_project_with_spec project_metadata_sequences)

text \<open>The theorem at a concrete read.\<close>

theorem fetch_ok_tags_links_absent_or_in_order_witness:
  "(\<exists>st md.
       outcome (domain_Read (serving payments_domain) ([], config_with_fallback)) = Return [] (Some st)
     \<and> Metadata st = Some md \<and> md_Tags md = None
     \<and> md_Links md = Some [\<lparr>link_URL = StringValue ''https://a'', link_Title = StringValue ''a'',
                               link_Icon = StringValue [], link_Type = StringValue []\<rparr>,
                            \<lparr>link_URL = StringValue ''https://b'', link_Title = StringValue ''b'',
                               link_Icon = StringValue [], link_Type = StringValue []\<rparr>])
   \<and> (\<exists>st md.
       outcome (api_Read (serving payments_api) ([], config_with_fallback)) = Return [] (Some st)
     \<and> Metadata st = Some md \<and> md_Tags md = None
     \<and> md_Links md = Some [\<lparr>link_URL = StringValue ''https://a'', link_Title = StringValue ''a'',
                               link_Icon = StringValue [], link_Type = StringValue []\<rparr>,
                            \<lparr>link_URL = StringValue ''https://b'', link_Title = StringValue ''b'',
                               link_Icon = StringValue [], link_Type = StringValue []\<rparr>])"
  using fetch_ok_tags_links_absent_or_in_order [OF no_diagnostics status_200,
        where dcfg = config_with_fallback and dclient = "serving payments_domain"
          and d = payments_domain and dsp = "\<lparr>des_Owner = ''team-a''\<rparr>"
          and acfg = config_with_fallback and aclient = "serving payments_api"
          and a = payments_api
          and asp = "\<lparr>aes_Type = ''openapi'', aes_Lifecycle = ''production'', aes_Owner = ''team-a'',
                     aes_Definition = ''openapi: 3.0.0'', aes_System = ''billing''\<rparr>"]
  by (simp add: Get_concrete payments_meta_fields range_slice_def project_link_def)

text \<open>
  The attributes of the API fallback are those of the entity with every flag replaced by
  \<open>Optional\<close>; those of the Domain fallback are so but for \<open>name\<close>.
\<close>

lemma api_fallback_is_relaxed_entity:
  "fallback_attributes api_Schema = map (\<lambda>(n, a). (n, relax a)) (entity_attributes api_Schema)"
  by (simp add: fallback_attributes_def entity_attributes_def api_Schema_def)

lemma domain_fallback_is_relaxed_entity_but_name:
  "fallback_attributes domain_Schema
     = (map (\<lambda>(n, a). (n, relax a)) (entity_attributes domain_Schema))
         [1 := (''name'', StringAttribute Required [LengthBetween 1 63, RegexMatches_patternEntityName])]"
  by (simp add: fallback_attributes_def entity_attributes_def domain_Schema_def)

end
